theory Spec2Isabelle
  imports Complex_Main "HOL-Library.Finite_Map"
begin

section \<open>Errors\<close>

text \<open>
  The script raises Python exceptions; the model returns them as values.  An exception
  is its class together with its message.  The message of an f-string is kept as its
  template (one constructor per template) applied to the interpolated values.
\<close>

datatype message =
    No_TRAIN_patches_found string
  | Requested_samples_but_only_available int nat string
  | Sample_larger_than_population_or_is_negative
  | Operands_could_not_be_broadcast_together nat nat
  | Input_and_output_sizes_should_be_greater_than_0
  | Non_empty_data_tensor_expected
  | Cannot_choose_from_an_empty_sequence
  | Error_in_loading_state_dict
  | Int_too_large_to_convert_to_float
  | Cannot_convert_float_infinity_to_integer

datatype error =
  ValueError message | RuntimeError message | IndexError message | OverflowError message

section \<open>Band information and statistics\<close>

text \<open>The canonical 13-band ordering of the SoftCon pretraining, indexed from 0.\<close>

definition ALL_BANDS_S2_L2A :: "string list" where
  "ALL_BANDS_S2_L2A =
     [''B1'', ''B2'', ''B3'', ''B4'', ''B5'', ''B6'', ''B7'', ''B8'', ''B8A'', ''B9'',
      ''B10'', ''B11'', ''B12'']"

text \<open>
  The per-band statistics, as the decimal literals of the script.  The script converts
  them to 32-bit floats; the model keeps them as exact rationals, and every pixel value
  is a rational as well.
\<close>

definition S2A_MEAN :: "rat list" where
  "S2A_MEAN =
     [75240087073 / 100000000, 88429673756 / 100000000, 114416202635 / 100000000,
      129747289228 / 100000000, 162490992062 / 100000000, 21946423161 / 10000000,
      242221248945 / 100000000, 251776053101 / 100000000, 258164687018 / 100000000,
      264551888987 / 100000000, 0, 236851236873 / 100000000, 180506846033 / 100000000]"

definition S2A_STD :: "rat list" where
  "S2A_STD =
     [110802887453 / 100000000, 115515170768 / 100000000, 11836292542 / 10000000,
      136811351514 / 100000000, 1370265037 / 1000000, 135555390699 / 100000000,
      141651487101 / 100000000, 147478900051 / 100000000, 14393086061 / 10000000,
      158228010962 / 100000000, 1, 145552084939 / 100000000, 134348379601 / 100000000]"

definition train_mean :: "rat list" where
  "train_mean = S2A_MEAN"

definition train_std :: "rat list" where
  "train_std = S2A_STD"

section \<open>Image tensors and the transforms\<close>

text \<open>
  An image tensor of shape \<open>(C, H, W)\<close>: its channels, each a list of \<open>H\<close> rows of \<open>W\<close>
  values.  \<open>H\<close> and \<open>W\<close> are kept beside the channels, as a tensor with no channel still
  has them.
\<close>

type_synonym plane = "rat list list"

record tensor =
  height :: nat
  width :: nat
  chans :: "plane list"

definition const_plane :: "nat \<Rightarrow> nat \<Rightarrow> rat \<Rightarrow> plane" where
  "const_plane h w v = replicate h (replicate w v)"

text \<open>\<^verbatim>\<open>torch.zeros((c, h, w))\<close>.\<close>

definition zeros :: "nat \<Rightarrow> nat \<Rightarrow> nat \<Rightarrow> tensor" where
  "zeros c h w = \<lparr> height = h, width = w, chans = replicate c (const_plane h w 0) \<rparr>"

text \<open>\<^verbatim>\<open>DropSARChannels.__call__\<close>: \<^verbatim>\<open>img[2:, :, :]\<close>.\<close>

definition DropSARChannels_call :: "tensor \<Rightarrow> tensor" where
  "DropSARChannels_call img = img\<lparr> chans := drop 2 (chans img) \<rparr>"

text \<open>
  \<^verbatim>\<open>ZeroInitializeB10.__call__\<close>: a zero channel \<^verbatim>\<open>b10\<close> of the image's height and width,
  and \<^verbatim>\<open>torch.cat([img[:9, :, :], b10, img[9:, :, :]], dim=0)\<close>.
\<close>

definition ZeroInitializeB10_call :: "tensor \<Rightarrow> tensor" where
  "ZeroInitializeB10_call img =
     (let b10 = zeros 1 (height img) (width img)
      in img\<lparr> chans := take 9 (chans img) @ chans b10 @ drop 9 (chans img) \<rparr>)"

text \<open>
  NumPy broadcasting of two axes of lengths \<open>a\<close> and \<open>b\<close>: equal lengths, or one of them 1;
  an axis of length 1 repeats its only element.
\<close>

definition broadcast_dim :: "nat \<Rightarrow> nat \<Rightarrow> nat option" where
  "broadcast_dim a b =
     (if a = b then Some a else if a = 1 then Some b else if b = 1 then Some a else None)"

definition bnth :: "'a list \<Rightarrow> nat \<Rightarrow> 'a" where
  "bnth xs c = (if length xs = 1 then xs ! 0 else xs ! c)"

text \<open>
  \<^verbatim>\<open>NormalizeWithStats.__call__\<close>: \<^verbatim>\<open>(img_np - self.mean) / self.std\<close>, where \<^verbatim>\<open>mean\<close> and
  \<^verbatim>\<open>std\<close> have the shapes \<open>(len(mean), 1, 1)\<close> and \<open>(len(std), 1, 1)\<close>.  The channel
  axes are broadcast, which fails when they do not fit; the axes of length 1 always fit
  \<open>H\<close> and \<open>W\<close>.  (A zero \<^verbatim>\<open>std\<close> gives \<open>inf\<close> or \<open>nan\<close> in NumPy and 0 here; the
  statistics of the script have none.)
\<close>

definition NormalizeWithStats_call :: "rat list \<Rightarrow> rat list \<Rightarrow> tensor \<Rightarrow> error + tensor" where
  "NormalizeWithStats_call mean std img =
     (case broadcast_dim (length (chans img)) (length mean) of
        None \<Rightarrow>
          Inl (ValueError
            (Operands_could_not_be_broadcast_together (length (chans img)) (length mean)))
      | Some n \<Rightarrow>
          (case broadcast_dim n (length std) of
             None \<Rightarrow>
               Inl (ValueError (Operands_could_not_be_broadcast_together n (length std)))
           | Some m \<Rightarrow>
               Inr (img\<lparr> chans :=
                      map (\<lambda>c. map (map (\<lambda>x. (x - bnth mean c) / bnth std c))
                                 (bnth (chans img) c))
                          [0..<m] \<rparr>)))"

text \<open>
  The image operations of torchvision are a library, taken as a parameter: the
  interpolation of one channel to a given height and width, and the rotation of one
  channel by an angle in degrees (the size is kept).
\<close>

record tv_ops =
  resize_plane :: "nat \<Rightarrow> nat \<Rightarrow> plane \<Rightarrow> plane"
  rotate_plane :: "rat \<Rightarrow> plane \<Rightarrow> plane"

text \<open>
  Resizing interpolates every channel.  The interpolation rejects an empty input; no
  theorem below depends on which error that is.
\<close>

definition resize :: "tv_ops \<Rightarrow> nat \<Rightarrow> nat \<Rightarrow> tensor \<Rightarrow> error + tensor" where
  "resize ops h w img =
     (if chans img = [] then Inl (RuntimeError Non_empty_data_tensor_expected)
      else if height img = 0 \<or> width img = 0
      then Inl (RuntimeError Input_and_output_sizes_should_be_greater_than_0)
      else Inr \<lparr> height = h, width = w, chans = map (resize_plane ops h w) (chans img) \<rparr>)"

definition rotate :: "tv_ops \<Rightarrow> rat \<Rightarrow> tensor \<Rightarrow> tensor" where
  "rotate ops angle img = img\<lparr> chans := map (rotate_plane ops angle) (chans img) \<rparr>"

text \<open>Flips of the last axis (each row reversed) and of the row axis.\<close>

definition hflip :: "tensor \<Rightarrow> tensor" where
  "hflip img = img\<lparr> chans := map (map rev) (chans img) \<rparr>"

definition vflip :: "tensor \<Rightarrow> tensor" where
  "vflip img = img\<lparr> chans := map rev (chans img) \<rparr>"

text \<open>
  The crop \<^verbatim>\<open>img[..., i:i+h, j:j+w]\<close> (top row \<open>i\<close>, left column \<open>j\<close>), as a slice.  The
  boxes that \<^verbatim>\<open>RandomResizedCrop\<close> draws lie inside the image (\<open>crop_box_ok\<close> below); what
  the library does with a box that leaves the image is not modelled beyond the slice.
\<close>

definition crop :: "nat \<Rightarrow> nat \<Rightarrow> nat \<Rightarrow> nat \<Rightarrow> tensor \<Rightarrow> tensor" where
  "crop i j h w img =
     \<lparr> height = min h (height img - i), width = min w (width img - j),
       chans = map (\<lambda>p. map (\<lambda>row. take w (drop j row)) (take h (drop i p)))
                   (chans img) \<rparr>"

text \<open>
  What the random transforms draw for one image: whether each flip happens, the number
  that selects the alternative of \<^verbatim>\<open>RandomChoice\<close>, where in its range of degrees a
  rotation falls, and the crop box of \<^verbatim>\<open>RandomResizedCrop\<close>.
\<close>

record draws =
  flip_horizontal :: bool
  flip_vertical :: bool
  choice :: nat
  angle_position :: rat
  crop_top :: nat
  crop_left :: nat
  crop_height :: nat
  crop_width :: nat

text \<open>The transforms the script composes, with their constructor arguments.\<close>

datatype transform =
    Resize nat nat
  | DropSARChannels
  | ZeroInitializeB10
  | RandomHorizontalFlip
  | RandomVerticalFlip
  | RandomChoice "transform list"
  | RandomRotation rat rat
  | RandomResizedCrop nat nat rat rat
  | NormalizeWithStats "rat list" "rat list"

text \<open>Calling one transform on an image.\<close>

function (sequential) call ::
  "tv_ops \<Rightarrow> draws \<Rightarrow> transform \<Rightarrow> tensor \<Rightarrow> error + tensor" where
  "call ops d (Resize h w) img = resize ops h w img"
| "call ops d DropSARChannels img = Inr (DropSARChannels_call img)"
| "call ops d ZeroInitializeB10 img = Inr (ZeroInitializeB10_call img)"
| "call ops d RandomHorizontalFlip img =
     Inr (if flip_horizontal d then hflip img else img)"
| "call ops d RandomVerticalFlip img =
     Inr (if flip_vertical d then vflip img else img)"
| "call ops d (RandomChoice ts) img =
     (if ts = [] then Inl (IndexError Cannot_choose_from_an_empty_sequence)
      else call ops d (ts ! (choice d mod length ts)) img)"
| "call ops d (RandomRotation lo hi) img =
     Inr (rotate ops (lo + angle_position d * (hi - lo)) img)"
| "call ops d (RandomResizedCrop h w scale_lo scale_hi) img =
     resize ops h w (crop (crop_top d) (crop_left d) (crop_height d) (crop_width d) img)"
| "call ops d (NormalizeWithStats mean std) img = NormalizeWithStats_call mean std img"
  by pat_completeness auto
termination
proof (relation "measure (\<lambda>(ops, d, t, img). size t)")
  show "wf (measure (\<lambda>(ops, d, t, img). size t))"
    by simp
next
  fix ops :: tv_ops and d :: draws and ts :: "transform list" and img :: tensor
  assume "ts \<noteq> []"
  then have "ts ! (choice d mod length ts) \<in> set ts"
    by simp
  then have "size (ts ! (choice d mod length ts)) < Suc (size_list size ts)"
    by (simp add: less_Suc_eq_le size_list_estimation')
  then show "((ops, d, ts ! (choice d mod length ts), img), ops, d, RandomChoice ts, img)
       \<in> measure (\<lambda>(ops, d, t, img). size t)"
    by simp
qed

text \<open>\<^verbatim>\<open>transforms.Compose(ts)\<close>: the transforms in order; an exception ends the chain.\<close>

fun Compose :: "tv_ops \<Rightarrow> draws \<Rightarrow> transform list \<Rightarrow> tensor \<Rightarrow> error + tensor" where
  "Compose ops d [] img = Inr img"
| "Compose ops d (t # ts) img =
     (case call ops d t img of
        Inl e \<Rightarrow> Inl e
      | Inr img' \<Rightarrow> Compose ops d ts img')"

definition train_transform :: "transform list" where
  "train_transform =
     [Resize 224 224,
      DropSARChannels,
      ZeroInitializeB10,
      RandomHorizontalFlip,
      RandomVerticalFlip,
      RandomChoice
        [RandomRotation 0 0,
         RandomRotation 90 90,
         RandomRotation 180 180,
         RandomRotation 270 270],
      RandomResizedCrop 224 224 (8 / 10) 1,
      NormalizeWithStats train_mean train_std]"

definition val_transform :: "transform list" where
  "val_transform =
     [Resize 224 224,
      DropSARChannels,
      ZeroInitializeB10,
      NormalizeWithStats train_mean train_std]"

text \<open>
  The four augmentation steps, as the specification lists them: the random horizontal
  flip, the random vertical flip, the random choice of a rotation, and the random
  resized crop.  \<open>val_transform_spec\<close> is the training pipeline without them.
\<close>

fun augmentation :: "transform \<Rightarrow> bool" where
  "augmentation RandomHorizontalFlip = True"
| "augmentation RandomVerticalFlip = True"
| "augmentation (RandomChoice ts) = True"
| "augmentation (RandomRotation lo hi) = True"
| "augmentation (RandomResizedCrop h w scale_lo scale_hi) = True"
| "augmentation t = False"

definition val_transform_spec :: "transform list" where
  "val_transform_spec = filter (\<lambda>t. \<not> augmentation t) train_transform"

text \<open>
  What the specification asks of the external operations: interpolating an all-zero
  channel gives an all-zero channel of the requested size.
\<close>

definition resize_keeps_zero :: "tv_ops \<Rightarrow> bool" where
  "resize_keeps_zero ops =
     (\<forall>h w h0 w0. 0 < h0 \<longrightarrow> 0 < w0 \<longrightarrow>
        resize_plane ops h w (const_plane h0 w0 0) = const_plane h w 0)"

text \<open>
  The crop box that \<^verbatim>\<open>RandomResizedCrop\<close> draws for an image of height \<open>h\<close> and width \<open>w\<close>
  is not empty and lies inside the image.
\<close>

definition crop_box_ok :: "draws \<Rightarrow> nat \<Rightarrow> nat \<Rightarrow> bool" where
  "crop_box_ok d h w =
     (0 < crop_height d \<and> 0 < crop_width d \<and>
      crop_top d + crop_height d \<le> h \<and> crop_left d + crop_width d \<le> w)"

text \<open>
  An instance of the operations for evaluation: nearest-neighbour interpolation, and
  rotation by the quarter turns nearest below the angle.
\<close>

definition nearest_plane :: "nat \<Rightarrow> nat \<Rightarrow> plane \<Rightarrow> plane" where
  "nearest_plane h w p =
     map (\<lambda>i. map (\<lambda>j. p ! (i * length p div h) ! (j * length (p ! 0) div w)) [0..<w])
         [0..<h]"

definition quarter_turns :: "rat \<Rightarrow> plane \<Rightarrow> plane" where
  "quarter_turns angle p = ((\<lambda>q. rev (transpose q)) ^^ nat \<lfloor>angle / 90\<rfloor>) p"

definition nearest_ops :: tv_ops where
  "nearest_ops = \<lparr> resize_plane = nearest_plane, rotate_plane = quarter_turns \<rparr>"

definition some_draws :: draws where
  "some_draws =
     \<lparr> flip_horizontal = True, flip_vertical = False, choice = 6, angle_position = 1 / 2,
       crop_top = 10, crop_left = 4, crop_height = 200, crop_width = 210 \<rparr>"

definition other_draws :: draws where
  "other_draws =
     \<lparr> flip_horizontal = False, flip_vertical = True, choice = 3, angle_position = 0,
       crop_top = 0, crop_left = 0, crop_height = 224, crop_width = 224 \<rparr>"

section \<open>The country-specific train/val split\<close>

text \<open>
  One row of \<^verbatim>\<open>metadata.parquet\<close>, with the three columns the script reads.
\<close>

record patch_row =
  patch_id :: string
  country :: string
  split :: string

text \<open>
  \<^verbatim>\<open>mask = (meta.country == country) & (meta.split == "train")\<close> and
  \<^verbatim>\<open>available = meta.loc[mask, "patch_id"].tolist()\<close>: the identifiers of the selected
  rows, in the order of the table.
\<close>

definition available_patches :: "patch_row list \<Rightarrow> string \<Rightarrow> string list" where
  "available_patches meta cty =
     map patch_id (filter (\<lambda>r. country r = cty \<and> split r = ''train'') meta)"

text \<open>
  Python's \<^verbatim>\<open>random\<close> module is a library, taken as a parameter: how a generator is
  seeded from an integer, how it is seeded from the operating system when the seed is
  \<^verbatim>\<open>None\<close>, and which positions of a population of size \<open>n\<close> a generator in a given
  state selects when asked for a sample of size \<open>k\<close>.
\<close>

record ('g, 'e) py_random =
  init_by_seed :: "int \<Rightarrow> 'g"
  init_by_entropy :: "'e \<Rightarrow> 'g"
  sample_positions :: "'g \<Rightarrow> nat \<Rightarrow> nat \<Rightarrow> nat list"

text \<open>
  What the process holds besides the arguments of a call: the state of the module-level
  generator (seeded with 123 at the top of the script) and the entropy source of the
  operating system.
\<close>

record ('g, 'e) world =
  global_random :: 'g
  os_entropy :: 'e

text \<open>\<^verbatim>\<open>random.Random(seed)\<close>: a generator of its own, seeded by \<open>seed\<close>.\<close>

definition Random :: "('g, 'e) py_random \<Rightarrow> ('g, 'e) world \<Rightarrow> int option \<Rightarrow> 'g" where
  "Random lib w seed =
     (case seed of
        None \<Rightarrow> init_by_entropy lib (os_entropy w)
      | Some s \<Rightarrow> init_by_seed lib s)"

text \<open>
  \<^verbatim>\<open>rng.sample(population, k)\<close>: a \<^verbatim>\<open>ValueError\<close> unless \<open>0 \<le> k \<le> len(population)\<close>,
  otherwise the elements at the selected positions.
\<close>

definition sample :: "('g, 'e) py_random \<Rightarrow> 'g \<Rightarrow> 'a list \<Rightarrow> int \<Rightarrow> error + 'a list" where
  "sample lib rng population k =
     (let n = length population in
      if \<not> (0 \<le> k \<and> k \<le> int n)
      then Inl (ValueError Sample_larger_than_population_or_is_negative)
      else Inr (map (\<lambda>i. population ! i) (sample_positions lib rng n (nat k))))"

text \<open>
  Python floats are IEEE 754 doubles.  A finite double is modelled as the rational it
  denotes, and \<open>round64\<close> rounds a rational to the nearest double, ties to even: the
  magnitude is scaled by powers of two until it has 53 significant bits (fewer below the
  smallest normal number, where the exponent stops at \<open>-1074\<close>), the scaled value is
  rounded to an integer, and the scaling is undone.  A result of magnitude \<open>2 ^ 1024\<close> or
  more stands for an infinity.
\<close>

definition rne :: "rat \<Rightarrow> int" where
  "rne q =
     (let f = \<lfloor>q\<rfloor>; r = q - of_int f
      in if r < 1 / 2 then f else if 1 / 2 < r then f + 1 else if even f then f else f + 1)"

function scale_down :: "rat \<Rightarrow> int \<Rightarrow> rat \<times> int" where
  "scale_down q e =
     (if 2 ^ 53 \<le> q \<and> e < 972 then scale_down (q / 2) (e + 1) else (q, e))"
  by pat_completeness auto
termination
  by (relation "measure (\<lambda>(q, e). nat (972 - e))") auto

function scale_up :: "rat \<Rightarrow> int \<Rightarrow> rat \<times> int" where
  "scale_up q e =
     (if q < 2 ^ 52 \<and> - 1074 < e then scale_up (2 * q) (e - 1) else (q, e))"
  by pat_completeness auto
termination
  by (relation "measure (\<lambda>(q, e). nat (e + 1074))") auto

declare scale_up.simps [simp del] scale_down.simps [simp del]

definition pow2 :: "int \<Rightarrow> rat" where
  "pow2 e = (if 0 \<le> e then 2 ^ nat e else 1 / 2 ^ nat (- e))"

definition round64_pos :: "rat \<Rightarrow> rat" where
  "round64_pos q =
     (let (q1, e1) = scale_down q 0; (q2, e2) = scale_up q1 e1
      in of_int (rne q2) * pow2 e2)"

definition round64 :: "rat \<Rightarrow> rat" where
  "round64 q = (if q < 0 then - round64_pos (- q) else round64_pos q)"

text \<open>
  A float value: finite, or an infinity (of either sign).  \<^verbatim>\<open>float(n)\<close>, which Python
  applies to the integer operand of \<^verbatim>\<open>n_samples * train_frac\<close>, raises an
  \<^verbatim>\<open>OverflowError\<close> when the integer is too large; the product of two floats is rounded
  and overflows to an infinity; \<^verbatim>\<open>int(x)\<close> truncates a finite float towards zero and
  raises an \<^verbatim>\<open>OverflowError\<close> on an infinity.
\<close>

datatype float64 = Finite rat | Infinite

definition float_of_int :: "int \<Rightarrow> error + rat" where
  "float_of_int n =
     (let a = round64 (of_int n)
      in if 2 ^ 1024 \<le> \<bar>a\<bar> then Inl (OverflowError Int_too_large_to_convert_to_float)
         else Inr a)"

definition float_mul :: "rat \<Rightarrow> rat \<Rightarrow> float64" where
  "float_mul a b =
     (let p = round64 (a * b) in if 2 ^ 1024 \<le> \<bar>p\<bar> then Infinite else Finite p)"

fun py_int :: "float64 \<Rightarrow> error + int" where
  "py_int (Finite q) = Inr (if 0 \<le> q then \<lfloor>q\<rfloor> else \<lceil>q\<rceil>)"
| "py_int Infinite = Inl (OverflowError Cannot_convert_float_infinity_to_integer)"

text \<open>
  A slice bound \<open>i\<close> on a list of length \<open>n\<close>: a negative bound counts from the end, and
  every bound is clamped to the list.  \<^verbatim>\<open>xs[:i]\<close> and \<^verbatim>\<open>xs[i:]\<close> follow.
\<close>

definition slice_bound :: "int \<Rightarrow> nat \<Rightarrow> nat" where
  "slice_bound i n = (if i < 0 then nat (max 0 (int n + i)) else min (nat i) n)"

definition slice_to :: "'a list \<Rightarrow> int \<Rightarrow> 'a list" where
  "slice_to xs i = take (slice_bound i (length xs)) xs"

definition slice_from :: "'a list \<Rightarrow> int \<Rightarrow> 'a list" where
  "slice_from xs i = drop (slice_bound i (length xs)) xs"

text \<open>
  Lines 181 to 193 of \<^verbatim>\<open>load_country_train_val\<close>: the two identifier sets
  \<open>(train_ids, val_ids)\<close>, or the exception raised.  \<open>train_frac\<close> is a finite double;
  \<^verbatim>\<open>split_at = int(n_samples * train_frac)\<close> is computed in double precision.
\<close>

definition load_country_train_val_ids ::
  "('g, 'e) py_random \<Rightarrow> patch_row list \<Rightarrow> ('g, 'e) world \<Rightarrow>
   string \<Rightarrow> int \<Rightarrow> int option \<Rightarrow> rat \<Rightarrow> error + (string set \<times> string set)" where
  "load_country_train_val_ids lib meta w cty n_samples seed train_frac =
     (let available = available_patches meta cty in
      if available = [] then Inl (ValueError (No_TRAIN_patches_found cty))
      else if n_samples > int (length available)
      then Inl (ValueError
             (Requested_samples_but_only_available n_samples (length available) cty))
      else
        let rng = Random lib w seed in
        case sample lib rng available n_samples of
          Inl e \<Rightarrow> Inl e
        | Inr sampled \<Rightarrow>
            (case float_of_int n_samples of
               Inl e \<Rightarrow> Inl e
             | Inr n_float \<Rightarrow>
                 (case py_int (float_mul n_float train_frac) of
                    Inl e \<Rightarrow> Inl e
                  | Inr split_at \<Rightarrow>
                      let train_ids = set (slice_to sampled split_at);
                          val_ids = set (slice_from sampled split_at)
                      in Inr (train_ids, val_ids))))"

text \<open>
  The handle of a \<^verbatim>\<open>BENv2DataSet\<close>: the arguments \<^verbatim>\<open>_make_ds\<close> constructs it with.  The
  prefilter is \<^verbatim>\<open>lambda pid: pid in keep_ids\<close>.
\<close>

definition datapath :: "(string \<times> string) list" where
  "datapath =
     [(''images_lmdb'', ''/faststorage/BigEarthNet-V2/BigEarthNet-V2-LMDB''),
      (''metadata_parquet'', ''/faststorage/BigEarthNet-V2/metadata.parquet''),
      (''metadata_snow_cloud_parquet'',
       ''/faststorage/BigEarthNet-V2/metadata_for_patches_with_snow_cloud_or_shadow.parquet'')]"

record dataset =
  data_dirs :: "(string \<times> string) list"
  img_size :: "nat \<times> nat \<times> nat"
  split_arg :: string
  include_snowy :: bool
  include_cloudy :: bool
  patch_prefilter :: "string \<Rightarrow> bool"
  transform :: "transform list"

definition make_ds ::
  "nat \<times> nat \<times> nat \<Rightarrow> bool \<Rightarrow> bool \<Rightarrow> string set \<Rightarrow> transform list \<Rightarrow> dataset" where
  "make_ds isize snowy cloudy keep_ids tr =
     \<lparr> data_dirs = datapath, img_size = isize, split_arg = ''train'',
       include_snowy = snowy, include_cloudy = cloudy,
       patch_prefilter = (\<lambda>pid. pid \<in> keep_ids), transform = tr \<rparr>"

text \<open>
  \<^verbatim>\<open>load_country_train_val\<close>: the pair \<open>(train_ds, val_ds)\<close>, or the exception raised.  The
  identifiers a handle keeps are those its prefilter accepts.
\<close>

definition load_country_train_val ::
  "('g, 'e) py_random \<Rightarrow> patch_row list \<Rightarrow> ('g, 'e) world \<Rightarrow>
   string \<Rightarrow> int \<Rightarrow> int option \<Rightarrow> rat \<Rightarrow> nat \<times> nat \<times> nat \<Rightarrow> bool \<Rightarrow> bool \<Rightarrow>
   error + (dataset \<times> dataset)" where
  "load_country_train_val lib meta w cty n_samples seed train_frac isize snowy cloudy =
     (case load_country_train_val_ids lib meta w cty n_samples seed train_frac of
        Inl e \<Rightarrow> Inl e
      | Inr (train_ids, val_ids) \<Rightarrow>
          Inr (make_ds isize snowy cloudy train_ids train_transform,
               make_ds isize snowy cloudy val_ids val_transform))"

definition kept_ids :: "dataset \<Rightarrow> string set" where
  "kept_ids ds = {pid. patch_prefilter ds pid}"

text \<open>
  The contract of \<^verbatim>\<open>random.sample\<close>: for \<open>k \<le> n\<close> it selects \<open>k\<close> pairwise different
  positions below \<open>n\<close>.
\<close>

definition sample_contract :: "('g, 'e) py_random \<Rightarrow> bool" where
  "sample_contract lib =
     (\<forall>g n k. k \<le> n \<longrightarrow>
        length (sample_positions lib g n k) = k \<and>
        distinct (sample_positions lib g n k) \<and>
        (\<forall>i \<in> set (sample_positions lib g n k). i < n))"

text \<open>
  An instance of the library for evaluation: the generator state is the seed itself, and
  a sample of size \<open>k\<close> out of \<open>n\<close> takes \<open>k\<close> consecutive positions starting at the seed,
  wrapping around at \<open>n\<close>.
\<close>

definition rotating_random :: "(nat, nat) py_random" where
  "rotating_random =
     \<lparr> init_by_seed = (\<lambda>s. nat \<bar>s\<bar>),
       init_by_entropy = (\<lambda>e. e),
       sample_positions = (\<lambda>g n k. map (\<lambda>i. (g + i) mod n) [0..<k]) \<rparr>"

section \<open>Model assembly and the training driver\<close>

text \<open>
  The module objects of the script that own parameters, named by the call that creates
  them: \<^verbatim>\<open>vit_base(...)\<close> (\<^verbatim>\<open>model_vitb14\<close>), \<^verbatim>\<open>LoRA_ViT_timm(...)\<close> (the low-rank factors it adds),
  \<^verbatim>\<open>nn.Linear(...)\<close> of the model setup (\<^verbatim>\<open>classifier\<close>), and \<^verbatim>\<open>nn.Linear(...)\<close> inside
  \<^verbatim>\<open>SoftConLightningModule.__init__\<close> (\<^verbatim>\<open>self.classifier\<close>).  Every call creates an object of
  its own.
\<close>

datatype obj = Backbone | Adapters | Classifier | Head

text \<open>
  A parameter is its tensor (of a type left open) and its \<^verbatim>\<open>requires_grad\<close> flag; the store
  gives every object its parameter dictionary.
\<close>

record 'v param =
  data :: 'v
  requires_grad :: bool

type_synonym 'v store = "obj \<Rightarrow> (string, 'v param) fmap"

text \<open>
  A module is referred to by its \<^verbatim>\<open>named_modules()\<close>: the attribute path to every object it
  reaches.  A state dict is grouped by the same paths: the key \<^verbatim>\<open>model.lora_vit.x\<close> is the
  key \<open>x\<close> of the group at path \<open>[model, lora_vit]\<close>.
\<close>

type_synonym module = "(string list \<times> obj) list"

type_synonym 'v state_dict = "(string list \<times> (string, 'v) fmap) list"

definition fresh :: "(string, 'v) fmap \<Rightarrow> (string, 'v param) fmap" where
  "fresh init = fmmap (\<lambda>v. \<lparr> data = v, requires_grad = True \<rparr>) init"

definition under :: "string \<Rightarrow> module \<Rightarrow> module" where
  "under name m = map (\<lambda>(path, ob). (name # path, ob)) m"

definition state_dict :: "module \<Rightarrow> 'v store \<Rightarrow> 'v state_dict" where
  "state_dict m st = map (\<lambda>(path, ob). (path, fmmap data (st ob))) m"

definition state_keys :: "'v state_dict \<Rightarrow> (string list \<times> string) set" where
  "state_keys sd = (\<Union>(path, d) \<in> set sd. Pair path ` fmdom' d)"

text \<open>
  \<^verbatim>\<open>load_state_dict\<close> (strict): a \<^verbatim>\<open>RuntimeError\<close> when a key is missing or unexpected,
  otherwise every parameter of the module takes the tensor stored under its key.
\<close>

definition load_state_dict :: "module \<Rightarrow> 'v state_dict \<Rightarrow> 'v store \<Rightarrow> error + 'v store" where
  "load_state_dict m sd st =
     (if state_keys sd \<noteq> state_keys (state_dict m st)
      then Inl (RuntimeError Error_in_loading_state_dict)
      else Inr (fold (\<lambda>(path, ob) s.
                  s(ob := fmmap_keys
                    (\<lambda>n p. case Option.bind (map_of sd path) (\<lambda>d. fmlookup d n) of
                             None \<Rightarrow> p
                           | Some v \<Rightarrow> p\<lparr> data := v \<rparr>)
                    (s ob)))
                m st))"

text \<open>\<^verbatim>\<open>nn.Linear(in_features, out_features)\<close> with its initial weight and bias.\<close>

definition Linear :: "nat \<Rightarrow> nat \<Rightarrow> 'v \<times> 'v \<Rightarrow> (string, 'v) fmap" where
  "Linear in_features out_features init =
     fmap_of_list [(''weight'', fst init), (''bias'', snd init)]"

fun string_of_nat :: "nat \<Rightarrow> string" where
  "string_of_nat n =
     (if n < 10 then [char_of (48 + n)]
      else string_of_nat (n div 10) @ [char_of (48 + n mod 10)])"

text \<open>\<^verbatim>\<open>nn.Sequential(m0, m1, ...)\<close>: the children are named by their positions.\<close>

definition Sequential :: "module list \<Rightarrow> module" where
  "Sequential ms =
     concat (map (\<lambda>(i, m). under (string_of_nat i) m) (enumerate 0 ms))"

text \<open>
  Modelled from the spec: \<^verbatim>\<open>LoRA_ViT_timm\<close> is imported from a directory outside the
  sources.  The specification says that it wraps the backbone, freezes the original
  backbone weights and adds the low-rank factors, which alone are trained.  The
  wrapper keeps the backbone as \<^verbatim>\<open>lora_vit\<close>; the new factors are an object of their own.
\<close>

definition LoRA_ViT_timm ::
  "module \<Rightarrow> (string, 'v) fmap \<Rightarrow> 'v store \<Rightarrow> module \<times> 'v store" where
  "LoRA_ViT_timm vit adapter_init st =
     (let st1 = fold (\<lambda>(path, ob) s.
                   s(ob := fmmap (\<lambda>p. p\<lparr> requires_grad := False \<rparr>) (s ob))) vit st;
          st2 = st1(Adapters := fresh adapter_init)
      in (([], Adapters) # under ''lora_vit'' vit, st2))"

text \<open>
  \<^verbatim>\<open>SoftConLightningModule.__init__\<close>: \<^verbatim>\<open>self.model = model\<close> and
  \<^verbatim>\<open>self.classifier = nn.Linear(embed_dim, num_classes)\<close>, a new object.
\<close>

definition SoftConLightningModule ::
  "module \<Rightarrow> nat \<Rightarrow> nat \<Rightarrow> 'v \<times> 'v \<Rightarrow> 'v store \<Rightarrow> module \<times> 'v store" where
  "SoftConLightningModule model embed_dim num_classes head_init st =
     (let st1 = st(Head := fresh (Linear embed_dim num_classes head_init))
      in (under ''model'' model @ [([''classifier''], Head)], st1))"

text \<open>
  The trainer is a library, taken as a parameter: \<open>train sd path n\<close> is the tensor that
  the parameter \<open>n\<close> of the object at \<open>path\<close> ends with, when the module passed to
  \<^verbatim>\<open>trainer.fit\<close> starts in the state \<open>sd\<close>.  The optimizer is built from
  \<^verbatim>\<open>self.parameters()\<close>, and updates the parameters that require a gradient.
\<close>

definition trainer_fit ::
  "('v state_dict \<Rightarrow> string list \<Rightarrow> string \<Rightarrow> 'v) \<Rightarrow> module \<Rightarrow> 'v store \<Rightarrow> 'v store" where
  "trainer_fit train m st =
     fold (\<lambda>(path, ob) s.
       s(ob := fmmap_keys
         (\<lambda>n p. if requires_grad p then p\<lparr> data := train (state_dict m st) path n \<rparr> else p)
         (s ob)))
       m st"

text \<open>
  What the script takes from outside: the fresh initialization of the backbone, the
  checkpoint on disk, the initializations of the low-rank factors and of the two linear
  layers, the embedding dimension of the backbone, and the trainer.
\<close>

record 'v env =
  backbone_init :: "(string, 'v) fmap"
  ckpt_file :: "(string, 'v) fmap"
  adapter_init :: "(string, 'v) fmap"
  classifier_init :: "'v \<times> 'v"
  head_init :: "'v \<times> 'v"
  backbone_embed_dim :: nat
  train :: "'v state_dict \<Rightarrow> string list \<Rightarrow> string \<Rightarrow> 'v"

text \<open>
  What a run leaves: the modules bound to the variables of the script, the store after
  \<^verbatim>\<open>load_state_dict\<close>, the store when \<^verbatim>\<open>trainer.fit\<close> is called and the module it is called
  with, the store at the end, and the state dict written by \<^verbatim>\<open>torch.save\<close>.
\<close>

record 'v run =
  model_vitb14 :: module
  lora_model :: module
  classifier :: module
  lora_with_head :: module
  pl_model :: module
  after_load :: "'v store"
  before_fit :: "'v store"
  fitted :: module
  final :: "'v store"
  saved :: "'v state_dict"

text \<open>
  The script from the model setup to the end.  Moving \<^verbatim>\<open>lora_with_head\<close> to the device
  changes no parameter and no flag.
\<close>

definition run_script :: "'v env \<Rightarrow> error + 'v run" where
  "run_script e =
     (let st0 = (\<lambda>ob. fmempty);
          st1 = st0(Backbone := fresh (backbone_init e));
          vitb14 = [([], Backbone)];
          ckpt_vitb14 = ckpt_file e;
          model_state = state_dict vitb14 st1
      in case load_state_dict vitb14 model_state st1 of
           Inl err \<Rightarrow> Inl err
         | Inr st2 \<Rightarrow>
             let (lora, st3) = LoRA_ViT_timm vitb14 (adapter_init e) st2;
                 num_classes = 19;
                 st4 = st3(Classifier :=
                         fresh (Linear (backbone_embed_dim e) num_classes (classifier_init e)));
                 cls = [([], Classifier)];
                 with_head = Sequential [lora, cls];
                 st5 = st4(Classifier :=
                         fmmap (\<lambda>p. p\<lparr> requires_grad := True \<rparr>) (st4 Classifier));
                 embed_dim = backbone_embed_dim e;
                 (pl, st6) = SoftConLightningModule lora embed_dim 19 (head_init e) st5;
                 st7 = trainer_fit (train e) pl st6
             in Inr \<lparr> model_vitb14 = vitb14, lora_model = lora, classifier = cls,
                      lora_with_head = with_head, pl_model = pl, after_load = st2,
                      before_fit = st6, fitted = pl, final = st7,
                      saved = state_dict pl st7 \<rparr>)"

definition small_meta :: "patch_row list" where
  "small_meta =
     [\<lparr> patch_id = ''IE_01'', country = ''Ireland'', split = ''train'' \<rparr>,
      \<lparr> patch_id = ''IE_02'', country = ''Ireland'', split = ''train'' \<rparr>,
      \<lparr> patch_id = ''IE_03'', country = ''Ireland'', split = ''test'' \<rparr>,
      \<lparr> patch_id = ''AT_01'', country = ''Austria'', split = ''train'' \<rparr>,
      \<lparr> patch_id = ''IE_04'', country = ''Ireland'', split = ''train'' \<rparr>,
      \<lparr> patch_id = ''IE_05'', country = ''Ireland'', split = ''validation'' \<rparr>,
      \<lparr> patch_id = ''IE_06'', country = ''Ireland'', split = ''train'' \<rparr>,
      \<lparr> patch_id = ''IE_07'', country = ''Ireland'', split = ''train'' \<rparr>]"

text \<open>Fifty train patches of one country, with identifiers of different lengths.\<close>

definition wide_meta :: "patch_row list" where
  "wide_meta =
     map (\<lambda>i. \<lparr> patch_id = replicate (Suc i) (CHR ''p''), country = ''Ireland'',
                 split = ''train'' \<rparr>) [0..<50]"

text \<open>The sizes of the two identifier sets of a result.\<close>

definition split_sizes :: "error + (dataset \<times> dataset) \<Rightarrow> error + (nat \<times> nat)" where
  "split_sizes r =
     (case r of
        Inl e \<Rightarrow> Inl e
      | Inr (train_ds, val_ds) \<Rightarrow> Inr (card (kept_ids train_ds), card (kept_ids val_ds)))"

definition some_world :: "(nat, nat) world" where
  "some_world = \<lparr> global_random = 123, os_entropy = 99 \<rparr>"

definition ramp_image :: "nat \<Rightarrow> tensor" where
  "ramp_image c =
     \<lparr> height = 1, width = 2, chans = map (\<lambda>k. [[of_nat k, of_nat k + 1]]) [0..<c] \<rparr>"

text \<open>Abbreviations for intermediate values of the pipelines and of the run.\<close>

definition resized :: "tv_ops \<Rightarrow> tensor \<Rightarrow> tensor" where
  "resized ops img =
     \<lparr> height = 224, width = 224, chans = map (resize_plane ops 224 224) (chans img) \<rparr>"

definition augmented :: "tv_ops \<Rightarrow> draws \<Rightarrow> tensor \<Rightarrow> tensor" where
  "augmented ops d img =
     crop (crop_top d) (crop_left d) (crop_height d) (crop_width d)
       (rotate ops ([0, 90, 180, 270] ! (choice d mod 4))
         ((if flip_vertical d then vflip else id)
           ((if flip_horizontal d then hflip else id) img)))"

definition frozen :: "(string, 'v) fmap \<Rightarrow> (string, 'v param) fmap" where
  "frozen init = fmmap (\<lambda>v. \<lparr> data = v, requires_grad = False \<rparr>) init"

definition lora_module :: module where
  "lora_module = [([], Adapters), ([''lora_vit''], Backbone)]"

definition lightning_module :: module where
  "lightning_module =
     [([''model''], Adapters), ([''model'', ''lora_vit''], Backbone), ([''classifier''], Head)]"

definition store_before_fit :: "'v env \<Rightarrow> 'v store" where
  "store_before_fit e =
     (\<lambda>ob. fmempty)
       (Backbone := frozen (backbone_init e),
        Adapters := fresh (adapter_init e),
        Classifier := fresh (Linear (backbone_embed_dim e) 19 (classifier_init e)),
        Head := fresh (Linear (backbone_embed_dim e) 19 (head_init e)))"

section \<open>The split: partition, rejection, determinism\<close>

lemma rotating_contract: "sample_contract rotating_random"
  unfolding sample_contract_def rotating_random_def
proof (intro allI impI conjI)
  fix g n k :: nat assume kn: "k \<le> n"
  show "length (sample_positions \<lparr>init_by_seed = \<lambda>s. nat \<bar>s\<bar>, init_by_entropy = \<lambda>e. e,
      sample_positions = \<lambda>g n k. map (\<lambda>i. (g + i) mod n) [0..<k]\<rparr> g n k) = k" by simp
  have "inj_on (\<lambda>i. (g + i) mod n) {0..<k}"
  proof (rule inj_onI)
    fix x y assume x: "x \<in> {0..<k}" and y: "y \<in> {0..<k}" and e: "(g + x) mod n = (g + y) mod n"
    have xn: "x < n" and yn: "y < n" using x y kn by auto
    show "x = y"
    proof (cases "x \<le> y")
      case True
      then have "g + x \<le> g + y" by simp
      from mod_eq_dvd_iff_nat [OF this, of n] e have "n dvd (g + y) - (g + x)" by simp
      then have "n dvd y - x" by simp
      then show ?thesis using yn True by (auto dest: dvd_imp_le)
    next
      case False
      then have "g + y \<le> g + x" by simp
      from mod_eq_dvd_iff_nat [OF this, of n] e have "n dvd (g + x) - (g + y)" by simp
      then have "n dvd x - y" by simp
      then show ?thesis using xn False by (auto dest: dvd_imp_le)
    qed
  qed
  then show "distinct (sample_positions \<lparr>init_by_seed = \<lambda>s. nat \<bar>s\<bar>, init_by_entropy = \<lambda>e. e,
      sample_positions = \<lambda>g n k. map (\<lambda>i. (g + i) mod n) [0..<k]\<rparr> g n k)"
    by (simp add: distinct_map)
  show "\<forall>i\<in>set (sample_positions \<lparr>init_by_seed = \<lambda>s. nat \<bar>s\<bar>, init_by_entropy = \<lambda>e. e,
      sample_positions = \<lambda>g n k. map (\<lambda>i. (g + i) mod n) [0..<k]\<rparr> g n k). i < n"
    using kn by (cases "n = 0") auto
qed

lemma sample_Inr:
  assumes "sample_contract lib" "0 \<le> k" "k \<le> int (length pop)" "distinct pop"
  shows "\<exists>ys. sample lib g pop k = Inr ys \<and> length ys = nat k \<and> distinct ys \<and> set ys \<subseteq> set pop"
proof -
  let ?ps = "sample_positions lib g (length pop) (nat k)"
  have kn: "nat k \<le> length pop" using assms by linarith
  from assms(1) kn have len: "length ?ps = nat k" and d: "distinct ?ps"
    and b: "\<forall>i\<in>set ?ps. i < length pop"
    unfolding sample_contract_def by blast+
  have "inj_on (\<lambda>i. pop ! i) (set ?ps)"
    using b assms(4) by (auto simp: inj_on_def nth_eq_iff_index_eq)
  with d have "distinct (map (\<lambda>i. pop ! i) ?ps)" by (simp add: distinct_map)
  moreover have "set (map (\<lambda>i. pop ! i) ?ps) \<subseteq> set pop" using b by auto
  ultimately show ?thesis using assms(2,3) len by (simp add: sample_def Let_def)
qed

lemma rne_le: "q \<le> of_int k \<Longrightarrow> rne q \<le> k"
proof -
  assume a: "q \<le> of_int k"
  have f: "\<lfloor>q\<rfloor> \<le> k" using a by (simp add: floor_le_iff)
  show ?thesis
  proof (cases "q = of_int \<lfloor>q\<rfloor>")
    case True
    then have "q - of_int \<lfloor>q\<rfloor> = 0" by simp
    then show ?thesis using f by (simp add: rne_def Let_def)
  next
    case False
    then have "of_int \<lfloor>q\<rfloor> < q" using of_int_floor_le [of q] by linarith
    then have "of_int \<lfloor>q\<rfloor> < (of_int k :: rat)" using a by linarith
    then have "\<lfloor>q\<rfloor> + 1 \<le> k" by simp
    then show ?thesis using f by (simp add: rne_def Let_def)
  qed
qed

lemma rne_ge: "of_int k \<le> q \<Longrightarrow> k \<le> rne q"
proof -
  assume a: "of_int k \<le> q"
  then have "k \<le> \<lfloor>q\<rfloor>" by (simp add: le_floor_iff)
  then show ?thesis by (simp add: rne_def Let_def)
qed

lemma pow_ge_1: "(1::rat) \<le> 2 ^ j"
  by (rule one_le_power) simp

lemma scale_down_id: "q < 2 ^ 53 \<Longrightarrow> scale_down q e = (q, e)"
  by (simp add: scale_down.simps)

lemma scale_up_spec: "\<exists>k. scale_up q e = (q * 2 ^ k, e - int k)"
proof (induction q e rule: scale_up.induct)
  case (1 q e)
  show ?case
  proof (cases "q < 2 ^ 52 \<and> - 1074 < e")
    case True
    with 1 obtain k where "scale_up (2 * q) (e - 1) = (2 * q * 2 ^ k, e - 1 - int k)" by blast
    then have "scale_up q e = (q * 2 ^ Suc k, e - int (Suc k))"
      using True by (subst scale_up.simps) simp
    then show ?thesis by blast
  next
    case False
    then have "scale_up q e = (q * 2 ^ 0, e - int 0)"
      by (subst scale_up.simps) auto
    then show ?thesis by blast
  qed
qed

lemma scale_up_steps:
  "0 \<le> q \<Longrightarrow> q * 2 ^ j < 2 ^ 52 \<Longrightarrow> int j - 1074 < e \<Longrightarrow>
   \<exists>k > j. scale_up q e = (q * 2 ^ k, e - int k)"
proof (induction j arbitrary: q e)
  case 0
  obtain k where "scale_up (2 * q) (e - 1) = (2 * q * 2 ^ k, e - 1 - int k)"
    using scale_up_spec by blast
  then have "scale_up q e = (q * 2 ^ Suc k, e - int (Suc k))"
    using 0 by (subst scale_up.simps) simp
  then show ?case by blast
next
  case (Suc j)
  have "q * 1 \<le> q * 2 ^ Suc j" using Suc.prems(1) pow_ge_1 [of "Suc j"] by (intro mult_left_mono)
  then have q: "q < 2 ^ 52" using Suc.prems(2) by simp
  have "\<exists>k > j. scale_up (2 * q) (e - 1) = (2 * q * 2 ^ k, e - 1 - int k)"
    using Suc.prems by (intro Suc.IH) (simp_all add: mult.assoc mult.left_commute)
  then obtain k where k: "j < k" "scale_up (2 * q) (e - 1) = (2 * q * 2 ^ k, e - 1 - int k)"
    by blast
  then have "scale_up q e = (q * 2 ^ Suc k, e - int (Suc k))"
    using q Suc.prems(3) by (subst scale_up.simps) simp
  then show ?case using k(1) by (intro exI [of _ "Suc k"]) simp
qed

lemma pow2_neg: "pow2 (- int k) = 1 / 2 ^ k"
proof (cases "k = 0")
  case True
  then show ?thesis by (simp add: pow2_def)
next
  case False
  then have "\<not> 0 \<le> - int k" by simp
  then show ?thesis by (simp add: pow2_def)
qed


lemma round64_pos_grid:
  assumes "q < 2 ^ 53"
  shows "\<exists>k. round64_pos q = of_int (rne (q * 2 ^ k)) / 2 ^ k"
proof -
  obtain k where "scale_up q 0 = (q * 2 ^ k, 0 - int k)" using scale_up_spec by blast
  then have "round64_pos q = of_int (rne (q * 2 ^ k)) / 2 ^ k"
    using assms by (simp add: round64_pos_def scale_down_id pow2_neg)
  then show ?thesis ..
qed

lemma round64_pos_fine:
  assumes "0 \<le> q" "q * 2 ^ j < 2 ^ 52" "j < 1074"
  shows "\<exists>k > j. round64_pos q = of_int (rne (q * 2 ^ k)) / 2 ^ k"
proof -
  have "q * 1 \<le> q * 2 ^ j" using assms(1) pow_ge_1 [of j] by (intro mult_left_mono)
  then have q: "q < 2 ^ 53" using assms(2) by simp
  obtain k where k: "j < k" "scale_up q 0 = (q * 2 ^ k, 0 - int k)"
    using scale_up_steps [OF assms(1,2), of 0] assms(3) by auto
  then have "round64_pos q = of_int (rne (q * 2 ^ k)) / 2 ^ k"
    using q by (simp add: round64_pos_def scale_down_id pow2_neg)
  then show ?thesis using k(1) by blast
qed

lemma round64_pos_le:
  assumes "q \<le> of_int n" "q < 2 ^ 53"
  shows "round64_pos q \<le> of_int n"
proof -
  obtain k where k: "round64_pos q = of_int (rne (q * 2 ^ k)) / 2 ^ k"
    using round64_pos_grid [OF assms(2)] by blast
  have "q * 2 ^ k \<le> of_int (n * 2 ^ k)" using assms(1) by simp
  then have "rne (q * 2 ^ k) \<le> n * 2 ^ k" by (rule rne_le)
  then have "(of_int (rne (q * 2 ^ k)) :: rat) \<le> of_int (n * 2 ^ k)"
    by (simp only: of_int_le_iff)
  then show ?thesis unfolding k by (simp add: divide_le_eq)
qed

lemma round64_pos_ge:
  assumes "of_int n \<le> q" "q < 2 ^ 53"
  shows "of_int n \<le> round64_pos q"
proof -
  obtain k where k: "round64_pos q = of_int (rne (q * 2 ^ k)) / 2 ^ k"
    using round64_pos_grid [OF assms(2)] by blast
  have "of_int (n * 2 ^ k) \<le> q * 2 ^ k" using assms(1) by simp
  then have "n * 2 ^ k \<le> rne (q * 2 ^ k)" by (rule rne_ge)
  then have "(of_int (n * 2 ^ k) :: rat) \<le> of_int (rne (q * 2 ^ k))"
    by (simp only: of_int_le_iff)
  then show ?thesis unfolding k by (simp add: le_divide_eq)
qed

lemma round64_int:
  assumes "0 \<le> n" "n < 2 ^ 53"
  shows "round64 (of_int n) = of_int n"
proof -
  have b: "(of_int n :: rat) < 2 ^ 53" using assms(2) by (simp add: of_int_less_numeral_power_cancel_iff)
  have "round64_pos (of_int n) \<le> of_int n" "of_int n \<le> round64_pos (of_int n)"
    using b by (intro round64_pos_le round64_pos_ge; simp)+
  then show ?thesis using assms(1) by (simp add: round64_def)
qed

lemma round64_bounds:
  assumes "0 \<le> q" "q \<le> of_int n" "n < 2 ^ 53"
  shows "0 \<le> round64 q" "round64 q \<le> of_int n"
proof -
  have "(of_int n :: rat) < 2 ^ 53" using assms(3) by (simp add: of_int_less_numeral_power_cancel_iff)
  then have b: "q < 2 ^ 53" using assms(2) by linarith
  have "of_int 0 \<le> round64_pos q" using assms(1) b by (intro round64_pos_ge) simp_all
  then show "0 \<le> round64 q" using assms(1) by (simp add: round64_def)
  show "round64 q \<le> of_int n" using assms(1) round64_pos_le [OF assms(2) b] by (simp add: round64_def)
qed

lemma round64_default: "round64 (8 / 10) = 3602879701896397 / 4503599627370496"
  by code_simp

lemma default_product:
  assumes n0: "0 \<le> n" and nb: "n < 2 ^ 49"
  shows "\<lfloor>round64 (of_int n * (3602879701896397 / 4503599627370496))\<rfloor> = \<lfloor>of_int n * (8 / 10 :: rat)\<rfloor>"
proof -
  let ?d = "3602879701896397 / 4503599627370496 :: rat"
  let ?x = "of_int n * ?d"
  let ?j = "\<lfloor>of_int n * (8 / 10 :: rat)\<rfloor>"
  have nr: "(0::rat) \<le> of_int n" "(of_int n :: rat) < 2 ^ 49"
    using n0 nb by (simp_all add: of_int_less_numeral_power_cancel_iff)
  have x0: "0 \<le> ?x" using nr by simp
  have xn: "?x \<le> of_int n" using nr by simp
  have xb: "?x < 2 ^ 49" using xn nr by linarith
  have jl: "of_int ?j \<le> of_int n * (8 / 10 :: rat)" by (rule of_int_floor_le)
  have ju: "of_int n * (8 / 10 :: rat) < of_int ?j + 1" using floor_correct [of "of_int n * (8 / 10 :: rat)"] by linarith
  have "of_int (4 * n) < (of_int (5 * ?j + 5) :: rat)" using ju by simp
  then have "4 * n < 5 * ?j + 5" by (simp only: of_int_less_iff)
  then have "4 * n \<le> 5 * ?j + 4" by simp
  then have i4: "(of_int (4 * n) :: rat) \<le> of_int (5 * ?j + 4)" by (simp only: of_int_le_iff)
  have xe: "?x = of_int (4 * n) / 5 + of_int n / (5 * 2 ^ 52)" by simp
  have xj: "of_int ?j \<le> ?x" using jl nr by simp
  have xu: "?x \<le> of_int ?j + 7 / 8" using i4 nr unfolding xe by simp
  have lo: "of_int ?j \<le> round64_pos ?x"
    using xj xb by (intro round64_pos_ge) simp_all
  obtain k where k: "2 < k" "round64_pos ?x = of_int (rne (?x * 2 ^ k)) / 2 ^ k"
    using round64_pos_fine [of ?x 2] x0 xb by auto
  have p: "(2::rat) ^ k = 8 * 2 ^ (k - 3)"
    using k(1) power_add [of "2::rat" 3 "k - 3"] by simp
  have "?x * 2 ^ k \<le> (of_int ?j + 7 / 8) * 2 ^ k" using xu by (intro mult_right_mono) simp_all
  also have "\<dots> = of_int ((8 * ?j + 7) * 2 ^ (k - 3))" unfolding p by simp
  finally have "rne (?x * 2 ^ k) \<le> (8 * ?j + 7) * 2 ^ (k - 3)" by (rule rne_le)
  then have "(of_int (rne (?x * 2 ^ k)) :: rat) \<le> of_int ((8 * ?j + 7) * 2 ^ (k - 3))"
    by (simp only: of_int_le_iff)
  then have "round64_pos ?x \<le> of_int ((8 * ?j + 7) * 2 ^ (k - 3)) / 2 ^ k"
    unfolding k(2) by (intro divide_right_mono) simp_all
  also have "\<dots> = of_int ?j + 7 / 8" unfolding p by simp
  finally have hi: "round64_pos ?x < of_int ?j + 1" by simp
  have "round64 ?x = round64_pos ?x" using x0 by (simp add: round64_def)
  then show ?thesis using lo hi by (simp add: floor_unique)
qed


lemma double_range: "(2::rat) ^ 53 < 2 ^ 1024"
  by (rule power_strict_increasing) simp_all

lemma split_index:
  assumes "0 \<le> n" "n < 2 ^ 53" "0 \<le> tf" "tf \<le> 1"
  shows "float_of_int n = Inr (of_int n)"
    and "py_int (float_mul (of_int n) tf) = Inr \<lfloor>round64 (of_int n * tf)\<rfloor>"
    and "0 \<le> \<lfloor>round64 (of_int n * tf)\<rfloor>"
    and "\<lfloor>round64 (of_int n * tf)\<rfloor> \<le> n"
proof -
  have nr: "(0::rat) \<le> of_int n" "(of_int n :: rat) < 2 ^ 53"
    using assms(1,2) by (simp_all add: of_int_less_numeral_power_cancel_iff)
  have "\<bar>of_int n :: rat\<bar> < 2 ^ 1024"
    using nr double_range by linarith
  then show "float_of_int n = Inr (of_int n)"
    using round64_int [OF assms(1,2)] by (simp add: float_of_int_def Let_def)
  have q: "0 \<le> of_int n * tf" "of_int n * tf \<le> of_int n"
    using nr(1) assms(3,4) by (simp_all add: mult_left_le)
  have r: "0 \<le> round64 (of_int n * tf)" "round64 (of_int n * tf) \<le> of_int n"
    using round64_bounds [OF q assms(2)] by simp_all
  have "\<bar>round64 (of_int n * tf)\<bar> < 2 ^ 1024"
    using r nr double_range by linarith
  then show "py_int (float_mul (of_int n) tf) = Inr \<lfloor>round64 (of_int n * tf)\<rfloor>"
    using r(1) by (simp add: float_mul_def Let_def)
  show "0 \<le> \<lfloor>round64 (of_int n * tf)\<rfloor>"
    using r(1) by simp
  show "\<lfloor>round64 (of_int n * tf)\<rfloor> \<le> n"
    using r(2) by (simp add: floor_le_iff)
qed

lemma kept_ids_make_ds: "kept_ids (make_ds isize snowy cloudy ids tr) = ids"
  by (simp add: kept_ids_def make_ds_def)

lemma split_core:
  assumes lib: "sample_contract lib"
    and ids: "distinct (available_patches meta cty)"
    and ne: "available_patches meta cty \<noteq> []"
    and n0: "0 \<le> n_samples"
    and nle: "n_samples \<le> int (length (available_patches meta cty))"
    and nb: "n_samples < 2 ^ 53"
    and tf0: "0 \<le> train_frac" and tf1: "train_frac \<le> 1"
  shows "\<exists>train_ds val_ds.
           load_country_train_val lib meta w cty n_samples seed train_frac isize snowy cloudy
             = Inr (train_ds, val_ds) \<and>
           kept_ids train_ds \<inter> kept_ids val_ds = {} \<and>
           int (card (kept_ids train_ds)) = \<lfloor>round64 (of_int n_samples * train_frac)\<rfloor> \<and>
           int (card (kept_ids train_ds) + card (kept_ids val_ds)) = n_samples \<and>
           kept_ids train_ds \<subseteq> set (available_patches meta cty) \<and>
           kept_ids val_ds \<subseteq> set (available_patches meta cty)"
proof -
  let ?av = "available_patches meta cty"
  let ?k = "\<lfloor>round64 (of_int n_samples * train_frac)\<rfloor>"
  obtain ys where s: "sample lib (Random lib w seed) ?av n_samples = Inr ys"
    and len: "length ys = nat n_samples" and d: "distinct ys" and sub: "set ys \<subseteq> set ?av"
    using sample_Inr [OF lib n0 nle ids] by blast
  note k = split_index [OF n0 nb tf0 tf1]
  have sb: "slice_bound ?k (length ys) = nat ?k"
    using k(3,4) len by (simp add: slice_bound_def)
  have "load_country_train_val_ids lib meta w cty n_samples seed train_frac
      = Inr (set (slice_to ys ?k), set (slice_from ys ?k))"
    using ne nle s k(1,2) by (simp add: load_country_train_val_ids_def Let_def)
  then have eq: "load_country_train_val lib meta w cty n_samples seed train_frac
        isize snowy cloudy
      = Inr (make_ds isize snowy cloudy (set (slice_to ys ?k)) train_transform,
             make_ds isize snowy cloudy (set (slice_from ys ?k)) val_transform)"
    by (simp add: load_country_train_val_def)
  have dis: "set (slice_to ys ?k) \<inter> set (slice_from ys ?k) = {}"
    using d by (simp add: slice_to_def slice_from_def set_take_disj_set_drop_if_distinct)
  have c1: "card (set (slice_to ys ?k)) = nat ?k"
    using d k(3,4) len sb by (simp add: slice_to_def distinct_card)
  have c2: "card (set (slice_from ys ?k)) = nat n_samples - nat ?k"
    using d k(3,4) len sb by (simp add: slice_from_def distinct_card)
  have s1: "set (slice_to ys ?k) \<subseteq> set ?av"
    using sub set_take_subset by (fastforce simp: slice_to_def)
  have s2: "set (slice_from ys ?k) \<subseteq> set ?av"
    using sub set_drop_subset by (fastforce simp: slice_from_def)
  show ?thesis
    using eq dis c1 c2 s1 s2 k(3,4) n0 by (simp add: kept_ids_make_ds)
qed

lemma small_meta_Ireland:
  "available_patches small_meta ''Ireland'' = [''IE_01'', ''IE_02'', ''IE_04'', ''IE_06'', ''IE_07'']"
  by (simp add: available_patches_def small_meta_def)

lemma small_meta_rows:
  "filter (\<lambda>r. country r = ''Ireland'' \<and> split r = ''train'') small_meta =
     [\<lparr> patch_id = ''IE_01'', country = ''Ireland'', split = ''train'' \<rparr>,
      \<lparr> patch_id = ''IE_02'', country = ''Ireland'', split = ''train'' \<rparr>,
      \<lparr> patch_id = ''IE_04'', country = ''Ireland'', split = ''train'' \<rparr>,
      \<lparr> patch_id = ''IE_06'', country = ''Ireland'', split = ''train'' \<rparr>,
      \<lparr> patch_id = ''IE_07'', country = ''Ireland'', split = ''train'' \<rparr>]"
  by (simp add: small_meta_def)

lemma wide_meta_Ireland:
  "available_patches wide_meta ''Ireland'' = map (\<lambda>i. replicate (Suc i) (CHR ''p'')) [0..<50]"
  by (simp add: available_patches_def wide_meta_def filter_map comp_def)

lemma wide_meta_distinct: "distinct (available_patches wide_meta ''Ireland'')"
proof -
  have "inj_on (\<lambda>i. replicate (Suc i) (CHR ''p'')) (set [0..<50])"
  proof (rule inj_onI)
    fix x y :: nat
    assume "replicate (Suc x) (CHR ''p'') = replicate (Suc y) (CHR ''p'')"
    then have "length (replicate (Suc x) (CHR ''p'')) = length (replicate (Suc y) (CHR ''p''))"
      by (rule arg_cong)
    then show "x = y"
      by simp
  qed
  then show ?thesis
    unfolding wide_meta_Ireland by (simp add: distinct_map)
qed

lemma literal_in_unit:
  assumes "0 \<le> q" "q \<le> 1"
  shows "0 \<le> round64 q" "round64 q \<le> 1"
  using round64_bounds [of q 1] assms by simp_all

lemma wide_split_sizes:
  assumes "0 \<le> n" "n \<le> 50" "0 \<le> tf" "tf \<le> 1"
  shows "split_sizes (load_country_train_val rotating_random wide_meta some_world ''Ireland'' n
            (Some 123) tf (14, 224, 224) False False)
         = Inr (nat \<lfloor>round64 (of_int n * tf)\<rfloor>, nat n - nat \<lfloor>round64 (of_int n * tf)\<rfloor>)"
proof -
  have ne: "available_patches wide_meta ''Ireland'' \<noteq> []"
    and nle: "n \<le> int (length (available_patches wide_meta ''Ireland''))"
    using assms(2) by (simp_all add: wide_meta_Ireland)
  have nb: "n < 2 ^ 53"
    using assms(2) by simp
  obtain train_ds val_ds where
    r: "load_country_train_val rotating_random wide_meta some_world ''Ireland'' n
            (Some 123) tf (14, 224, 224) False False = Inr (train_ds, val_ds)"
    and c: "int (card (kept_ids train_ds)) = \<lfloor>round64 (of_int n * tf)\<rfloor>"
      "int (card (kept_ids train_ds) + card (kept_ids val_ds)) = n"
    using split_core [OF rotating_contract wide_meta_distinct ne assms(1) nle nb assms(3,4)]
    by blast
  from c have "card (kept_ids train_ds) = nat \<lfloor>round64 (of_int n * tf)\<rfloor>"
    "card (kept_ids val_ds) = nat n - nat \<lfloor>round64 (of_int n * tf)\<rfloor>"
    by linarith+
  then show ?thesis
    by (simp add: r split_sizes_def)
qed

lemma round64_07: "round64 (7 / 10) = 3152519739159347 / 4503599627370496"
  by code_simp

lemma product_50_058:
  "round64 (of_int 50 * round64 (58 / 100)) = 8162774324609023 / 281474976710656"
  by code_simp

lemma product_10_07: "round64 (of_int 10 * round64 (7 / 10)) = 7"
  by code_simp

text \<open>
  C1, as stated, at \<open>n_samples = 50\<close> and \<open>train_frac = 0.58\<close> on a table with 50 train
  patches of the country: the floor of \<open>50 * 0.58\<close> is 29, and the splitter returns 28
  train and 22 validation identifiers, as the double-precision product is just below 29.
  Reading \<open>train_frac\<close> as the exact value of its double does not save the claim: at
  \<open>n_samples = 10\<close> and \<open>train_frac = 0.7\<close> the floor of the exact product is 6, and the
  splitter returns 7 train identifiers.
\<close>

theorem split_size_is_not_exact_floor:
  "split_sizes (load_country_train_val rotating_random wide_meta some_world ''Ireland'' 50
       (Some 123) (round64 (58 / 100)) (14, 224, 224) False False) = Inr (28, 22) \<and>
   \<lfloor>of_int 50 * (58 / 100 :: rat)\<rfloor> = 29 \<and>
   split_sizes (load_country_train_val rotating_random wide_meta some_world ''Ireland'' 10
       (Some 123) (round64 (7 / 10)) (14, 224, 224) False False) = Inr (7, 3) \<and>
   \<lfloor>of_int 10 * round64 (7 / 10)\<rfloor> = 6"
proof -
  have p1: "\<lfloor>round64 (of_int 50 * round64 (58 / 100))\<rfloor> = 28"
    unfolding product_50_058 by (rule floor_unique) simp_all
  have p2: "\<lfloor>round64 (of_int 10 * round64 (7 / 10))\<rfloor> = 7"
    unfolding product_10_07 by simp
  have "split_sizes (load_country_train_val rotating_random wide_meta some_world ''Ireland'' 50
       (Some 123) (round64 (58 / 100)) (14, 224, 224) False False)
      = Inr (nat \<lfloor>round64 (of_int 50 * round64 (58 / 100))\<rfloor>,
             nat 50 - nat \<lfloor>round64 (of_int 50 * round64 (58 / 100))\<rfloor>)"
    by (rule wide_split_sizes) (simp_all add: literal_in_unit)
  then have a: "split_sizes (load_country_train_val rotating_random wide_meta some_world
       ''Ireland'' 50 (Some 123) (round64 (58 / 100)) (14, 224, 224) False False) = Inr (28, 22)"
    unfolding p1 by simp
  have "split_sizes (load_country_train_val rotating_random wide_meta some_world ''Ireland'' 10
       (Some 123) (round64 (7 / 10)) (14, 224, 224) False False)
      = Inr (nat \<lfloor>round64 (of_int 10 * round64 (7 / 10))\<rfloor>,
             nat 10 - nat \<lfloor>round64 (of_int 10 * round64 (7 / 10))\<rfloor>)"
    by (rule wide_split_sizes) (simp_all add: literal_in_unit)
  then have b: "split_sizes (load_country_train_val rotating_random wide_meta some_world
       ''Ireland'' 10 (Some 123) (round64 (7 / 10)) (14, 224, 224) False False) = Inr (7, 3)"
    unfolding p2 by simp
  have c: "\<lfloor>of_int 50 * (58 / 100 :: rat)\<rfloor> = 29"
    by simp
  have d: "\<lfloor>of_int 10 * round64 (7 / 10)\<rfloor> = 6"
    unfolding round64_07 by (rule floor_unique) simp_all
  from a b c d show ?thesis
    by (intro conjI)
qed

text \<open>
  C1, amended.  For a call in which the metadata rows with the given country and split
  \<open>train\<close> are at least one, have pairwise different patch identifiers, and number at
  least \<open>n_samples\<close>, with \<open>0 \<le> n_samples < 2 ^ 53\<close> and a train fraction between 0 and 1,
  the splitter returns two dataset handles whose identifier sets are disjoint; the train
  set has \<open>int(n_samples * train_frac)\<close> identifiers, the product being the
  double-precision product, and for the default \<open>train_frac = 0.8\<close> and
  \<open>n_samples < 2 ^ 49\<close> that is the floor of \<open>n_samples * 0.8\<close>; the two sets have
  \<open>n_samples\<close> identifiers in all; and every identifier of either set is the patch
  identifier of a metadata row with the given country and split \<open>train\<close>.
  (\<^verbatim>\<open>random.sample\<close> selects pairwise different positions of the population.)
\<close>

theorem split_partitions_sample:
  assumes "sample_contract lib"
    and "distinct (map patch_id (filter (\<lambda>r. country r = cty \<and> split r = ''train'') meta))"
    and "filter (\<lambda>r. country r = cty \<and> split r = ''train'') meta \<noteq> []"
    and "0 \<le> n_samples"
    and "n_samples \<le> int (length (filter (\<lambda>r. country r = cty \<and> split r = ''train'') meta))"
    and "n_samples < 2 ^ 53"
    and "0 \<le> train_frac" and "train_frac \<le> 1"
  shows "\<exists>train_ds val_ds.
           load_country_train_val lib meta w cty n_samples seed train_frac isize snowy cloudy
             = Inr (train_ds, val_ds) \<and>
           kept_ids train_ds \<inter> kept_ids val_ds = {} \<and>
           int (card (kept_ids train_ds)) = \<lfloor>round64 (of_int n_samples * train_frac)\<rfloor> \<and>
           (train_frac = round64 (8 / 10) \<longrightarrow> n_samples < 2 ^ 49 \<longrightarrow>
              int (card (kept_ids train_ds)) = \<lfloor>of_int n_samples * (8 / 10 :: rat)\<rfloor>) \<and>
           int (card (kept_ids train_ds) + card (kept_ids val_ds)) = n_samples \<and>
           kept_ids train_ds \<subseteq>
             {patch_id r | r. r \<in> set meta \<and> country r = cty \<and> split r = ''train''} \<and>
           kept_ids val_ds \<subseteq>
             {patch_id r | r. r \<in> set meta \<and> country r = cty \<and> split r = ''train''}"
proof -
  have av: "available_patches meta cty =
      map patch_id (filter (\<lambda>r. country r = cty \<and> split r = ''train'') meta)"
    by (simp add: available_patches_def)
  have rows: "set (available_patches meta cty) =
      {patch_id r | r. r \<in> set meta \<and> country r = cty \<and> split r = ''train''}"
    unfolding av by auto
  have h2: "distinct (available_patches meta cty)"
    and h3: "available_patches meta cty \<noteq> []"
    and h5: "n_samples \<le> int (length (available_patches meta cty))"
    using assms(2,3,5) unfolding av by simp_all
  obtain train_ds val_ds where
    r: "load_country_train_val lib meta w cty n_samples seed train_frac isize snowy cloudy
          = Inr (train_ds, val_ds)"
    and p: "kept_ids train_ds \<inter> kept_ids val_ds = {}"
      "int (card (kept_ids train_ds)) = \<lfloor>round64 (of_int n_samples * train_frac)\<rfloor>"
      "int (card (kept_ids train_ds) + card (kept_ids val_ds)) = n_samples"
      "kept_ids train_ds \<subseteq> set (available_patches meta cty)"
      "kept_ids val_ds \<subseteq> set (available_patches meta cty)"
    using split_core [OF assms(1) h2 h3 assms(4) h5 assms(6,7,8)] by blast
  have dflt: "train_frac = round64 (8 / 10) \<longrightarrow> n_samples < 2 ^ 49 \<longrightarrow>
      int (card (kept_ids train_ds)) = \<lfloor>of_int n_samples * (8 / 10 :: rat)\<rfloor>"
  proof (intro impI)
    assume tf: "train_frac = round64 (8 / 10)" and nb: "n_samples < 2 ^ 49"
    have e: "\<lfloor>round64 (of_int n_samples * train_frac)\<rfloor>
        = \<lfloor>of_int n_samples * (8 / 10 :: rat)\<rfloor>"
      unfolding tf round64_default by (rule default_product [OF assms(4) nb])
    show "int (card (kept_ids train_ds)) = \<lfloor>of_int n_samples * (8 / 10 :: rat)\<rfloor>"
      using p(2) e by (rule trans)
  qed
  show ?thesis
    using r p(1,2,3) p(4,5) [unfolded rows] dflt by blast
qed

theorem split_partitions_sample_witness:
  "sample_contract rotating_random \<and>
   distinct (map patch_id
     (filter (\<lambda>r. country r = ''Ireland'' \<and> split r = ''train'') small_meta)) \<and>
   filter (\<lambda>r. country r = ''Ireland'' \<and> split r = ''train'') small_meta \<noteq> [] \<and>
   (0::int) \<le> 5 \<and>
   5 \<le> int (length (filter (\<lambda>r. country r = ''Ireland'' \<and> split r = ''train'') small_meta)) \<and>
   (5::int) < 2 ^ 53 \<and> (5::int) < 2 ^ 49 \<and>
   0 \<le> round64 (8 / 10) \<and> round64 (8 / 10) \<le> 1 \<and>
   (\<exists>train_ds val_ds.
      load_country_train_val rotating_random small_meta some_world ''Ireland'' 5 (Some 123)
          (round64 (8 / 10)) (14, 224, 224) False False
        = Inr (train_ds, val_ds) \<and>
      kept_ids train_ds \<inter> kept_ids val_ds = {} \<and>
      int (card (kept_ids train_ds)) = 4 \<and>
      int (card (kept_ids train_ds) + card (kept_ids val_ds)) = 5 \<and>
      kept_ids train_ds \<subseteq> {''IE_01'', ''IE_02'', ''IE_04'', ''IE_06'', ''IE_07''} \<and>
      kept_ids val_ds \<subseteq> {''IE_01'', ''IE_02'', ''IE_04'', ''IE_06'', ''IE_07''})"
proof -
  have h1: "sample_contract rotating_random"
    by (rule rotating_contract)
  have h2: "distinct (map patch_id
     (filter (\<lambda>r. country r = ''Ireland'' \<and> split r = ''train'') small_meta))"
    unfolding small_meta_rows by simp
  have h3: "filter (\<lambda>r. country r = ''Ireland'' \<and> split r = ''train'') small_meta \<noteq> []"
    unfolding small_meta_rows by simp
  have h4: "(0::int) \<le> 5"
    by simp
  have h5: "5 \<le> int (length
     (filter (\<lambda>r. country r = ''Ireland'' \<and> split r = ''train'') small_meta))"
    unfolding small_meta_rows by simp
  have h6: "(5::int) < 2 ^ 53" and h6': "(5::int) < 2 ^ 49"
    by simp_all
  have h7: "0 \<le> round64 (8 / 10)" and h8: "round64 (8 / 10) \<le> 1"
    by (rule literal_in_unit; simp)+
  have rows: "{patch_id r | r. r \<in> set small_meta \<and> country r = ''Ireland'' \<and> split r = ''train''}
      = {''IE_01'', ''IE_02'', ''IE_04'', ''IE_06'', ''IE_07''}"
  proof -
    have "{patch_id r | r. r \<in> set small_meta \<and> country r = ''Ireland'' \<and> split r = ''train''}
      = set (map patch_id
          (filter (\<lambda>r. country r = ''Ireland'' \<and> split r = ''train'') small_meta))"
      by auto
    then show ?thesis
      unfolding small_meta_rows by simp
  qed
  have fl: "\<lfloor>of_int 5 * (8 / 10 :: rat)\<rfloor> = 4"
    by simp
  from split_partitions_sample [OF h1 h2 h3 h4 h5 h6 h7 h8, of some_world "Some 123"
      "(14, 224, 224)" False False]
  obtain train_ds val_ds where
    r: "load_country_train_val rotating_random small_meta some_world ''Ireland'' 5 (Some 123)
          (round64 (8 / 10)) (14, 224, 224) False False = Inr (train_ds, val_ds)"
    and dis: "kept_ids train_ds \<inter> kept_ids val_ds = {}"
    and dflt: "round64 (8 / 10) = round64 (8 / 10) \<longrightarrow> (5::int) < 2 ^ 49 \<longrightarrow>
              int (card (kept_ids train_ds)) = \<lfloor>of_int 5 * (8 / 10 :: rat)\<rfloor>"
    and tot: "int (card (kept_ids train_ds) + card (kept_ids val_ds)) = 5"
    and sub: "kept_ids train_ds \<subseteq>
        {patch_id r | r. r \<in> set small_meta \<and> country r = ''Ireland'' \<and> split r = ''train''}"
      "kept_ids val_ds \<subseteq>
        {patch_id r | r. r \<in> set small_meta \<and> country r = ''Ireland'' \<and> split r = ''train''}"
    by blast
  from dflt h6' have c: "int (card (kept_ids train_ds)) = 4"
    unfolding fl by blast
  from h1 h2 h3 h4 h5 h6 h6' h7 h8 r dis c tot sub [unfolded rows] show ?thesis
    by blast
qed

text \<open>
  C6.  When the country has no patch with split \<open>train\<close> in the metadata, or when
  \<open>n_samples\<close> exceeds the number of such patches, the splitter raises the error of its
  own (a \<^verbatim>\<open>ValueError\<close>, the configuration error of the specification) whose message names
  the country and, in the second case, the requested and the available count; it returns
  no dataset and no identifier set.
\<close>

theorem split_rejects_invalid_request:
  assumes "available_patches meta cty = [] \<or>
           int (length (available_patches meta cty)) < n_samples"
  shows "load_country_train_val lib meta w cty n_samples seed train_frac isize snowy cloudy =
           Inl (ValueError
             (if available_patches meta cty = [] then No_TRAIN_patches_found cty
              else Requested_samples_but_only_available n_samples
                     (length (available_patches meta cty)) cty)) \<and>
         load_country_train_val_ids lib meta w cty n_samples seed train_frac =
           Inl (ValueError
             (if available_patches meta cty = [] then No_TRAIN_patches_found cty
              else Requested_samples_but_only_available n_samples
                     (length (available_patches meta cty)) cty))"
  using assms
  by (auto simp add: load_country_train_val_def load_country_train_val_ids_def Let_def)

theorem split_rejects_invalid_request_witness:
  "(available_patches small_meta ''Atlantis'' = [] \<or>
    int (length (available_patches small_meta ''Atlantis'')) < 3) \<and>
   load_country_train_val rotating_random small_meta some_world ''Atlantis'' 3 (Some 123)
       (8 / 10) (14, 224, 224) False False
     = Inl (ValueError (No_TRAIN_patches_found ''Atlantis'')) \<and>
   (available_patches small_meta ''Ireland'' = [] \<or>
    int (length (available_patches small_meta ''Ireland'')) < 6) \<and>
   load_country_train_val rotating_random small_meta some_world ''Ireland'' 6 (Some 123)
       (8 / 10) (14, 224, 224) False False
     = Inl (ValueError (Requested_samples_but_only_available 6 5 ''Ireland''))"
proof -
  have a: "available_patches small_meta ''Atlantis'' = []"
    by (simp add: available_patches_def small_meta_def)
  have h1: "available_patches small_meta ''Atlantis'' = [] \<or>
    int (length (available_patches small_meta ''Atlantis'')) < 3"
    using a by simp
  have h2: "available_patches small_meta ''Ireland'' = [] \<or>
    int (length (available_patches small_meta ''Ireland'')) < 6"
    by (simp add: small_meta_Ireland)
  from split_rejects_invalid_request [OF h1, of rotating_random some_world "Some 123" "8 / 10"
      "(14, 224, 224)" False False]
  have r1: "load_country_train_val rotating_random small_meta some_world ''Atlantis'' 3
       (Some 123) (8 / 10) (14, 224, 224) False False
     = Inl (ValueError (No_TRAIN_patches_found ''Atlantis''))"
    using a by simp
  from split_rejects_invalid_request [OF h2, of rotating_random some_world "Some 123" "8 / 10"
      "(14, 224, 224)" False False]
  have r2: "load_country_train_val rotating_random small_meta some_world ''Ireland'' 6
       (Some 123) (8 / 10) (14, 224, 224) False False
     = Inl (ValueError (Requested_samples_but_only_available 6 5 ''Ireland''))"
    by (simp add: small_meta_Ireland)
  from h1 r1 h2 r2 show ?thesis
    by blast
qed

text \<open>
  C7.  With a seed given, the result of the splitter is a function of its arguments: two
  calls with the same arguments return the same datasets and identifier sets, whatever
  the state of the module-level generator and of the entropy source of the operating
  system before each call.
\<close>

theorem split_fixed_seed_deterministic:
  "load_country_train_val lib meta w cty n_samples (Some s) train_frac isize snowy cloudy =
   load_country_train_val lib meta w' cty n_samples (Some s) train_frac isize snowy cloudy \<and>
   load_country_train_val_ids lib meta w cty n_samples (Some s) train_frac =
   load_country_train_val_ids lib meta w' cty n_samples (Some s) train_frac"
proof -
  have seeded: "Random lib w (Some s) = Random lib w' (Some s)"
    by (simp add: Random_def)
  have ids: "load_country_train_val_ids lib meta w cty n_samples (Some s) train_frac =
      load_country_train_val_ids lib meta w' cty n_samples (Some s) train_frac"
    unfolding load_country_train_val_ids_def seeded ..
  show ?thesis
    unfolding load_country_train_val_def ids by simp
qed


section \<open>The band-transform pipelines\<close>

lemma sum_case_id: "(case x of Inl e \<Rightarrow> Inl e | Inr y \<Rightarrow> Inr y) = x"
  by (cases x) simp_all

lemma Compose_last: "Compose ops d [t] img = call ops d t img"
  by (simp add: sum_case_id cong: sum.case_cong)

lemma Compose_more:
  "Compose ops d (t # u # ts) img =
     (case call ops d t img of Inl e \<Rightarrow> Inl e | Inr x \<Rightarrow> Compose ops d (u # ts) x)"
  by simp

lemma length_stats: "length train_mean = 13" "length train_std = 13"
  by (simp_all add: train_mean_def train_std_def S2A_MEAN_def S2A_STD_def)

lemma normalize_13:
  assumes "length (chans img) = 13" "length mean = 13" "length std = 13"
  shows "NormalizeWithStats_call mean std img =
           Inr (img\<lparr> chans := map (\<lambda>c. map (map (\<lambda>x. (x - mean ! c) / std ! c)) (chans img ! c))
                                  [0..<13] \<rparr>)"
  using assms by (simp add: NormalizeWithStats_call_def broadcast_dim_def bnth_def)

lemma normalize_mismatch:
  assumes "length (chans img) \<noteq> 13" "length (chans img) \<noteq> 1" "length mean = 13"
  shows "NormalizeWithStats_call mean std img =
           Inl (ValueError (Operands_could_not_be_broadcast_together (length (chans img)) 13))"
  using assms by (simp add: NormalizeWithStats_call_def broadcast_dim_def)

lemma bands_chans:
  "chans (ZeroInitializeB10_call (DropSARChannels_call img)) =
     take 9 (drop 2 (chans img)) @ [const_plane (height img) (width img) 0] @ drop 11 (chans img)"
  by (simp add: ZeroInitializeB10_call_def DropSARChannels_call_def zeros_def Let_def)

lemma bands_length:
  "2 \<le> length (chans img) \<Longrightarrow>
   length (chans (ZeroInitializeB10_call (DropSARChannels_call img))) = length (chans img) - 1"
  by (simp add: bands_chans)

lemma bands_shape:
  "height (ZeroInitializeB10_call (DropSARChannels_call img)) = height img"
  "width (ZeroInitializeB10_call (DropSARChannels_call img)) = width img"
  by (simp_all add: ZeroInitializeB10_call_def DropSARChannels_call_def Let_def)

lemma val_run:
  assumes "chans img \<noteq> []" "0 < height img" "0 < width img"
  shows "Compose ops d val_transform img =
           NormalizeWithStats_call train_mean train_std
             (ZeroInitializeB10_call (DropSARChannels_call (resized ops img)))"
  using assms
  by (simp add: val_transform_def resize_def resized_def Compose_more Compose_last
        del: Compose.simps)

lemma rotation_choice:
  "call ops d (RandomChoice [RandomRotation 0 0, RandomRotation 90 90,
      RandomRotation 180 180, RandomRotation 270 270]) img =
   Inr (rotate ops ([0, 90, 180, 270] ! (choice d mod 4)) img)"
proof -
  have "choice d mod 4 < 4" by simp
  then consider "choice d mod 4 = 0" | "choice d mod 4 = 1" | "choice d mod 4 = 2" | "choice d mod 4 = 3"
    by linarith
  then show ?thesis by cases simp_all
qed

lemma augmented_chans: "length (chans (augmented ops d img)) = length (chans img)"
  by (simp add: augmented_def crop_def rotate_def vflip_def hflip_def)

lemma augmented_shape:
  assumes "crop_box_ok d (height img) (width img)"
  shows "0 < height (augmented ops d img)" "0 < width (augmented ops d img)"
  using assms by (auto simp add: augmented_def crop_def rotate_def vflip_def hflip_def crop_box_ok_def)

lemma train_run:
  assumes "chans img \<noteq> []" "0 < height img" "0 < width img"
  shows "Compose ops d train_transform img =
           (case resize ops 224 224
                   (augmented ops d (ZeroInitializeB10_call (DropSARChannels_call (resized ops img)))) of
              Inl e \<Rightarrow> Inl e
            | Inr x \<Rightarrow> NormalizeWithStats_call train_mean train_std x)"
proof -
  have r: "call ops d (Resize 224 224) img = Inr (resized ops img)"
    using assms by (simp add: resize_def resized_def)
  show ?thesis
    unfolding train_transform_def
    by (simp add: r rotation_choice augmented_def Compose_more Compose_last
          del: Compose.simps call.simps(1) call.simps(6) cong: sum.case_cong)
qed

lemma div_bound: "i < h \<Longrightarrow> 0 < n \<Longrightarrow> i * n div h < (n::nat)"
proof -
  assume a: "i < h" and n: "0 < n"
  have "i * n < n * h" using a n by (simp add: mult.commute)
  then show ?thesis using a by (simp add: less_mult_imp_div_less)
qed

lemma nearest_zero:
  assumes "0 < h0" "0 < w0"
  shows "nearest_plane h w (const_plane h0 w0 0) = const_plane h w 0"
proof -
  have row: "\<And>i. i < h \<Longrightarrow>
      map (\<lambda>j. replicate h0 (replicate w0 (0::rat)) ! (i * h0 div h) ! (j * w0 div w)) [0..<w]
        = replicate w 0"
  proof -
    fix i assume i: "i < h"
    have "map (\<lambda>j. replicate h0 (replicate w0 (0::rat)) ! (i * h0 div h) ! (j * w0 div w)) [0..<w]
        = map (\<lambda>j. 0) [0..<w]"
      using i assms by (intro map_cong refl) (simp add: div_bound)
    then show "map (\<lambda>j. replicate h0 (replicate w0 (0::rat)) ! (i * h0 div h) ! (j * w0 div w)) [0..<w]
        = replicate w 0" by (simp add: map_replicate_const)
  qed
  have "nearest_plane h w (const_plane h0 w0 0) = map (\<lambda>i. replicate w 0) [0..<h]"
    unfolding nearest_plane_def const_plane_def using assms
    by (intro map_cong refl) (simp add: row)
  then show ?thesis by (simp add: const_plane_def map_replicate_const)
qed

lemma nearest_keeps_zero: "resize_keeps_zero nearest_ops"
  by (simp add: resize_keeps_zero_def nearest_ops_def nearest_zero)

lemma resized_shape: "height (resized ops img) = 224" "width (resized ops img) = 224"
  "length (chans (resized ops img)) = length (chans img)"
  by (simp_all add: resized_def)

lemma replicate_insert: "replicate a z @ z # replicate b z = replicate (a + Suc b) z"
  by (simp add: replicate_add replicate_append_same)

lemma val_accepts:
  assumes "length (chans img) = 14" "0 < height img" "0 < width img"
  shows "\<exists>out. Compose ops d val_transform img = Inr out \<and> length (chans out) = 13
           \<and> height out = 224 \<and> width out = 224"
proof -
  have ne: "chans img \<noteq> []" using assms(1) by auto
  have l: "length (chans (ZeroInitializeB10_call (DropSARChannels_call (resized ops img)))) = 13"
    using assms(1) by (simp add: bands_length resized_shape)
  show ?thesis
    unfolding val_run [OF ne assms(2,3)]
    by (simp add: normalize_13 [OF l length_stats] bands_shape resized_shape)
qed

lemma val_rejects:
  assumes "15 \<le> length (chans img)" "0 < height img" "0 < width img"
  shows "Compose ops d val_transform img =
           Inl (ValueError (Operands_could_not_be_broadcast_together (length (chans img) - 1) 13))"
proof -
  have ne: "chans img \<noteq> []" using assms(1) by auto
  have l: "length (chans (ZeroInitializeB10_call (DropSARChannels_call (resized ops img))))
             = length (chans img) - 1"
    using assms(1) by (simp add: bands_length resized_def)
  show ?thesis
    unfolding val_run [OF ne assms(2,3)]
    using normalize_mismatch [of "ZeroInitializeB10_call (DropSARChannels_call (resized ops img))" train_mean train_std]
      assms(1) l length_stats by simp
qed

lemma train_accepts:
  assumes "length (chans img) = 14" "0 < height img" "0 < width img" "crop_box_ok d 224 224"
  shows "\<exists>out. Compose ops d train_transform img = Inr out \<and> length (chans out) = 13
           \<and> height out = 224 \<and> width out = 224"
proof -
  have ne: "chans img \<noteq> []" using assms(1) by auto
  let ?b = "ZeroInitializeB10_call (DropSARChannels_call (resized ops img))"
  let ?a = "augmented ops d ?b"
  have l: "length (chans ?a) = 13"
    using assms(1) by (simp add: augmented_chans bands_length resized_def)
  have "crop_box_ok d (height ?b) (width ?b)" using assms(4) by (simp add: bands_shape resized_def)
  then have pos: "0 < height ?a" "0 < width ?a" by (rule augmented_shape)+
  have r: "resize ops 224 224 ?a = Inr \<lparr> height = 224, width = 224,
             chans = map (resize_plane ops 224 224) (chans ?a) \<rparr>"
    using l pos by (auto simp add: resize_def)
  have l2: "length (chans \<lparr> height = 224, width = 224,
             chans = map (resize_plane ops 224 224) (chans ?a) \<rparr>) = 13" using l by simp
  show ?thesis
    unfolding train_run [OF ne assms(2,3)] r
    by (simp add: normalize_13 [OF l2 length_stats])
qed

lemma train_rejects:
  assumes "15 \<le> length (chans img)" "0 < height img" "0 < width img"
  shows "\<exists>e. Compose ops d train_transform img = Inl e"
proof -
  have ne: "chans img \<noteq> []" using assms(1) by auto
  let ?b = "ZeroInitializeB10_call (DropSARChannels_call (resized ops img))"
  let ?a = "augmented ops d ?b"
  have l: "length (chans ?a) = length (chans img) - 1"
    using assms(1) by (simp add: augmented_chans bands_length resized_def)
  show ?thesis
  proof (cases "resize ops 224 224 ?a")
    case (Inl e)
    then show ?thesis unfolding train_run [OF ne assms(2,3)] by simp
  next
    case (Inr x)
    then have "length (chans x) = length (chans img) - 1"
      using l by (auto simp add: resize_def split: if_splits)
    then have "NormalizeWithStats_call train_mean train_std x =
           Inl (ValueError (Operands_could_not_be_broadcast_together (length (chans x)) 13))"
      using assms(1) length_stats by (intro normalize_mismatch) simp_all
    then show ?thesis unfolding train_run [OF ne assms(2,3)] Inr by simp
  qed
qed

lemma val_zero_input:
  assumes "resize_keeps_zero ops" "0 < h" "0 < w"
  shows "Compose ops d val_transform (zeros 14 h w) =
           Inr \<lparr> height = 224, width = 224,
                 chans = map (\<lambda>c. const_plane 224 224 ((0 - S2A_MEAN ! c) / S2A_STD ! c)) [0..<13] \<rparr>"
proof -
  let ?z = "const_plane 224 224 (0::rat)"
  have rz: "resized ops (zeros 14 h w) = \<lparr> height = 224, width = 224, chans = replicate 14 ?z \<rparr>"
    using assms by (simp add: resized_def zeros_def resize_keeps_zero_def)
  let ?b = "ZeroInitializeB10_call (DropSARChannels_call (resized ops (zeros 14 h w)))"
  have "chans ?b = replicate 9 ?z @ [?z] @ replicate 3 ?z"
    unfolding bands_chans rz by simp
  also have "\<dots> = replicate 13 ?z"
    using replicate_insert [of 9 ?z 3] by simp
  finally have cb: "chans ?b = replicate 13 ?z" .
  have b: "?b = \<lparr> height = 224, width = 224, chans = replicate 13 ?z \<rparr>"
    using cb bands_shape [of "resized ops (zeros 14 h w)"] rz by simp
  have l: "length (chans ?b) = 13" using cb by simp
  have val: "Compose ops d val_transform (zeros 14 h w) =
      NormalizeWithStats_call train_mean train_std ?b"
    using assms(2,3) by (intro val_run) (simp_all add: zeros_def)
  have m: "map (\<lambda>c. map (map (\<lambda>x. (x - train_mean ! c) / train_std ! c)) (replicate 13 ?z ! c)) [0..<13]
       = map (\<lambda>c. const_plane 224 224 ((0 - S2A_MEAN ! c) / S2A_STD ! c)) [0..<13]"
    by (intro map_cong refl) (simp add: const_plane_def train_mean_def train_std_def)
  show ?thesis
    unfolding val normalize_13 [OF l length_stats] unfolding b using m by simp
qed


lemma stats_at_9:
  "(0 - S2A_MEAN ! 9) / S2A_STD ! 9 = - (264551888987 / 158228010962)"
  "(0 - S2A_MEAN ! 10) / S2A_STD ! 10 = 0"
  by (simp_all add: S2A_MEAN_def S2A_STD_def)

text \<open>
  C2.  The claim: the zero-filled channel stands at the position of band B10 of the
  canonical ordering, the position whose statistics are mean 0 and std 1.  The code:
  B10 is at index 10 of \<open>ALL_BANDS_S2_L2A\<close>, with mean 0 and std 1, but
  \<^verbatim>\<open>ZeroInitializeB10\<close> puts the zero channel at index 9, the position of B9, whose std is
  not 1; index 10 receives a data channel of the input.  On the all-zero image of 14
  channels the inserted channel is normalized to \<open>- mean / std\<close> of B9, not to 0.
\<close>

theorem zero_channel_takes_B9_slot:
  "ALL_BANDS_S2_L2A ! 10 = ''B10'' \<and> S2A_MEAN ! 10 = 0 \<and> S2A_STD ! 10 = 1 \<and>
   ALL_BANDS_S2_L2A ! 9 = ''B9'' \<and> S2A_STD ! 9 \<noteq> 1 \<and> S2A_MEAN ! 9 \<noteq> 0 \<and>
   chans (ZeroInitializeB10_call (DropSARChannels_call (ramp_image 14))) ! 9
     = const_plane 1 2 0 \<and>
   chans (ZeroInitializeB10_call (DropSARChannels_call (ramp_image 14))) ! 10
     = chans (ramp_image 14) ! 11 \<and>
   Compose nearest_ops some_draws val_transform (zeros 14 1 1) =
     Inr \<lparr> height = 224, width = 224,
           chans = map (\<lambda>c. const_plane 224 224 ((0 - S2A_MEAN ! c) / S2A_STD ! c)) [0..<13] \<rparr> \<and>
   map (\<lambda>c. const_plane 224 224 ((0 - S2A_MEAN ! c) / S2A_STD ! c)) [0..<13] ! 9
     = const_plane 224 224 (- (264551888987 / 158228010962))"
proof -
  have bands: "ALL_BANDS_S2_L2A ! 10 = ''B10''" "ALL_BANDS_S2_L2A ! 9 = ''B9''"
    by (simp_all add: ALL_BANDS_S2_L2A_def)
  have stats: "S2A_MEAN ! 10 = 0" "S2A_STD ! 10 = 1" "S2A_STD ! 9 \<noteq> 1" "S2A_MEAN ! 9 \<noteq> 0"
    by (simp_all add: S2A_MEAN_def S2A_STD_def)
  have l: "length (chans (ramp_image 14)) = 14"
    by (simp add: ramp_image_def)
  have at9: "chans (ZeroInitializeB10_call (DropSARChannels_call (ramp_image 14))) ! 9
     = const_plane (height (ramp_image 14)) (width (ramp_image 14)) 0"
    unfolding bands_chans using l by (simp add: nth_append)
  have at10: "chans (ZeroInitializeB10_call (DropSARChannels_call (ramp_image 14))) ! 10
     = chans (ramp_image 14) ! 11"
    unfolding bands_chans using l by (simp add: nth_append)
  have run: "Compose nearest_ops some_draws val_transform (zeros 14 1 1) =
     Inr \<lparr> height = 224, width = 224,
           chans = map (\<lambda>c. const_plane 224 224 ((0 - S2A_MEAN ! c) / S2A_STD ! c)) [0..<13] \<rparr>"
    by (rule val_zero_input [OF nearest_keeps_zero]) simp_all
  have "(9::nat) < 13"
    by simp
  then have out9: "map (\<lambda>c. const_plane 224 224 ((0 - S2A_MEAN ! c) / S2A_STD ! c)) [0..<13] ! 9
     = const_plane 224 224 (- (264551888987 / 158228010962))"
    by (simp add: S2A_MEAN_def S2A_STD_def del: upt_Suc)
  show ?thesis
    using bands stats at9 at10 run out9 by (simp add: ramp_image_def)
qed

text \<open>
  C3, as stated, at the all-zero image of shape \<open>(15, 1, 1)\<close>: the validation pipeline
  returns no tensor of shape \<open>(13, 224, 224)\<close>; after the drop and the insertion the image
  has 14 channels, which the 13 statistics do not fit.
\<close>

theorem zero_input_15_channels_rejected:
  "Compose nearest_ops some_draws val_transform (zeros 15 1 1) =
     Inl (ValueError (Operands_could_not_be_broadcast_together 14 13))"
  using val_rejects [of "zeros 15 1 1" nearest_ops some_draws]
  by (simp add: zeros_def)

text \<open>
  C3, amended.  For an all-zero input of shape \<open>(14, H, W)\<close> (2 SAR and 12 optical
  channels, \<open>H\<close> and \<open>W\<close> positive), with a resize that maps an all-zero channel to an
  all-zero channel, the validation pipeline returns a tensor of shape \<open>(13, 224, 224)\<close>
  in which every channel \<open>c\<close> other than the inserted one (index 9) is the constant
  \<open>(0 - mean_c) / std_c\<close>.
\<close>

theorem zero_input_14_channels_normalized:
  assumes "resize_keeps_zero ops" and "0 < h" and "0 < w"
  shows "\<exists>out. Compose ops d val_transform (zeros 14 h w) = Inr out \<and>
           length (chans out) = 13 \<and> height out = 224 \<and> width out = 224 \<and>
           (\<forall>c < 13. length (chans out ! c) = 224 \<and>
                      (\<forall>row \<in> set (chans out ! c). length row = 224)) \<and>
           (\<forall>c < 13. c \<noteq> 9 \<longrightarrow>
              chans out ! c = const_plane 224 224 ((0 - S2A_MEAN ! c) / S2A_STD ! c))"
proof -
  let ?out = "\<lparr> height = 224, width = 224,
     chans = map (\<lambda>c. const_plane 224 224 ((0 - S2A_MEAN ! c) / S2A_STD ! c)) [0..<13] \<rparr>"
  have run: "Compose ops d val_transform (zeros 14 h w) = Inr ?out"
    by (rule val_zero_input [OF assms])
  have ch: "\<And>c. c < 13 \<Longrightarrow>
      chans ?out ! c = const_plane 224 224 ((0 - S2A_MEAN ! c) / S2A_STD ! c)"
    by (simp del: upt_Suc)
  have shape: "\<And>c. c < 13 \<Longrightarrow> length (chans ?out ! c) = 224 \<and>
      (\<forall>row \<in> set (chans ?out ! c). length row = 224)"
    unfolding ch by (simp add: const_plane_def)
  have len: "length (chans ?out) = 13"
    by simp
  show ?thesis
    using run ch shape len by (intro exI [of _ ?out]) simp
qed

theorem zero_input_14_channels_normalized_witness:
  "resize_keeps_zero nearest_ops \<and> (0::nat) < 3 \<and> (0::nat) < 2 \<and>
   (\<exists>out. Compose nearest_ops some_draws val_transform (zeros 14 3 2) = Inr out \<and>
      length (chans out) = 13 \<and> height out = 224 \<and> width out = 224 \<and>
      length (chans out ! 0) = 224 \<and>
      chans out ! 0 = const_plane 224 224 (- (75240087073 / 110802887453)) \<and>
      chans out ! 10 = const_plane 224 224 0)"
proof -
  have h1: "resize_keeps_zero nearest_ops"
    by (rule nearest_keeps_zero)
  have h2: "(0::nat) < 3" and h3: "(0::nat) < 2"
    by simp_all
  have v0: "(0 - S2A_MEAN ! 0) / S2A_STD ! 0 = - (75240087073 / 110802887453)"
    by (simp add: S2A_MEAN_def S2A_STD_def)
  from zero_input_14_channels_normalized [OF h1 h2 h3, of some_draws]
  obtain out where
    run: "Compose nearest_ops some_draws val_transform (zeros 14 3 2) = Inr out"
    and shape: "length (chans out) = 13" "height out = 224" "width out = 224"
    and rows: "\<forall>c < 13. length (chans out ! c) = 224 \<and>
                      (\<forall>row \<in> set (chans out ! c). length row = 224)"
    and vals: "\<forall>c < 13. c \<noteq> 9 \<longrightarrow>
              chans out ! c = const_plane 224 224 ((0 - S2A_MEAN ! c) / S2A_STD ! c)"
    by blast
  from rows have r0: "length (chans out ! 0) = 224"
    by simp
  from vals have "chans out ! 0 = const_plane 224 224 ((0 - S2A_MEAN ! 0) / S2A_STD ! 0)"
    by simp
  then have c0: "chans out ! 0 = const_plane 224 224 (- (75240087073 / 110802887453))"
    unfolding v0 .
  from vals have "chans out ! 10 = const_plane 224 224 ((0 - S2A_MEAN ! 10) / S2A_STD ! 10)"
    by simp
  then have c10: "chans out ! 10 = const_plane 224 224 0"
    unfolding stats_at_9(2) .
  from h1 h2 h3 run shape r0 c0 c10 show ?thesis
    by blast
qed

text \<open>
  C4, as stated, at an image of 15 channels: the validation pipeline returns no tensor
  at all, so none with 13 channels.
\<close>

theorem fifteen_channels_rejected:
  "Compose nearest_ops other_draws val_transform (ramp_image 15) =
     Inl (ValueError (Operands_could_not_be_broadcast_together 14 13))"
  using val_rejects [of "ramp_image 15" nearest_ops other_draws]
  by (simp add: ramp_image_def)

text \<open>
  C4, amended.  For every input with exactly 14 channels (2 SAR and 12 optical) and any
  positive height and width, the validation pipeline returns a tensor with exactly 13
  channels, and so does the training pipeline whenever the crop box drawn lies inside
  the \<open>224 \<times> 224\<close> image and is not empty; an input with 15 or more channels is rejected
  by both.
\<close>

theorem fourteen_channels_give_13:
  assumes "0 < height img" and "0 < width img"
  shows "(length (chans img) = 14 \<longrightarrow>
            (\<exists>out. Compose ops d val_transform img = Inr out \<and> length (chans out) = 13) \<and>
            (crop_box_ok d 224 224 \<longrightarrow>
               (\<exists>out. Compose ops d train_transform img = Inr out \<and>
                      length (chans out) = 13))) \<and>
         (15 \<le> length (chans img) \<longrightarrow>
            (\<exists>e. Compose ops d val_transform img = Inl e) \<and>
            (\<exists>e. Compose ops d train_transform img = Inl e))"
  using val_accepts [OF _ assms, of ops d] train_accepts [OF _ assms, of d ops]
    val_rejects [OF _ assms, of ops d] train_rejects [OF _ assms, of ops d]
  by blast

theorem fourteen_channels_give_13_witness:
  "0 < height (ramp_image 14) \<and> 0 < width (ramp_image 14) \<and>
   length (chans (ramp_image 14)) = 14 \<and> crop_box_ok some_draws 224 224 \<and>
   (\<exists>out. Compose nearest_ops some_draws val_transform (ramp_image 14) = Inr out \<and>
          length (chans out) = 13) \<and>
   (\<exists>out. Compose nearest_ops some_draws train_transform (ramp_image 14) = Inr out \<and>
          length (chans out) = 13)"
proof -
  have h1: "0 < height (ramp_image 14)" and h2: "0 < width (ramp_image 14)"
    and h3: "length (chans (ramp_image 14)) = 14"
    by (simp_all add: ramp_image_def)
  have h4: "crop_box_ok some_draws 224 224"
    by (simp add: crop_box_ok_def some_draws_def)
  from fourteen_channels_give_13 [OF h1 h2, of nearest_ops some_draws] h3 h4
  have "(\<exists>out. Compose nearest_ops some_draws val_transform (ramp_image 14) = Inr out \<and>
          length (chans out) = 13) \<and>
   (\<exists>out. Compose nearest_ops some_draws train_transform (ramp_image 14) = Inr out \<and>
          length (chans out) = 13)"
    by blast
  with h1 h2 h3 h4 show ?thesis
    by blast
qed

text \<open>
  C8.  The validation pipeline is the training pipeline with the four augmentation steps
  removed and nothing else changed: the steps removed are the random horizontal flip,
  the random vertical flip, the random choice among the rotations by 0, 90, 180 and 270
  degrees, and the random resized crop; the steps kept are the resize, the SAR drop, the
  zero-channel insertion and the normalization, in the order of the training pipeline.
\<close>

theorem val_is_train_without_augmentation:
  "val_transform = val_transform_spec \<and>
   filter augmentation train_transform =
     [RandomHorizontalFlip, RandomVerticalFlip,
      RandomChoice [RandomRotation 0 0, RandomRotation 90 90,
                    RandomRotation 180 180, RandomRotation 270 270],
      RandomResizedCrop 224 224 (8 / 10) 1] \<and>
   length train_transform = length val_transform + 4 \<and>
   Compose ops d val_transform img = Compose ops d val_transform_spec img"
  by (simp add: val_transform_def val_transform_spec_def train_transform_def)

text \<open>
  C9.  The validation pipeline is deterministic: its output on an image does not depend
  on what the random transforms would draw, so two applications to the same input give
  the same output (or the same exception).
\<close>

theorem val_transform_deterministic:
  "Compose ops d val_transform img = Compose ops d' val_transform img"
  by (simp add: val_transform_def cong: sum.case_cong)


section \<open>The model assembly and what is trained and saved\<close>

lemma keep_data:
  "fmmap_keys (\<lambda>n p. case Option.bind (Some (fmmap data m)) (\<lambda>d. fmlookup d n) of
                             None \<Rightarrow> p | Some v \<Rightarrow> p\<lparr> data := v \<rparr>) m = m"
proof (rule fmap_ext)
  fix x
  show "fmlookup (fmmap_keys (\<lambda>n p. case Option.bind (Some (fmmap data m)) (\<lambda>d. fmlookup d n) of
                             None \<Rightarrow> p | Some v \<Rightarrow> p\<lparr> data := v \<rparr>) m) x = fmlookup m x"
    by (cases "fmlookup m x") simp_all
qed

lemma load_own_state:
  "load_state_dict [(path, ob)] (state_dict [(path, ob)] st) st = Inr st"
  using keep_data [of "st ob"] by (simp add: load_state_dict_def state_dict_def)

lemma digits: "string_of_nat 0 = ''0''" "string_of_nat (Suc 0) = ''1''"
  by code_simp+

lemma data_fresh: "fmmap data (fresh init) = init"
  by (rule fmap_ext) (simp add: fresh_def option.map_comp comp_def option.map_ident)

lemma trainable_fresh: "fmmap (\<lambda>p. p\<lparr> requires_grad := True \<rparr>) (fresh init) = fresh init"
  by (rule fmap_ext) (simp add: fresh_def option.map_comp comp_def)

lemma freeze_fresh: "fmmap (\<lambda>p. p\<lparr> requires_grad := False \<rparr>) (fresh init) = frozen init"
  by (rule fmap_ext) (simp add: fresh_def frozen_def option.map_comp comp_def)

lemma fit_frozen: "fmmap_keys (\<lambda>n p. if requires_grad p then p\<lparr> data := f n \<rparr> else p) (frozen init)
   = frozen init"
  by (rule fmap_ext) (simp add: frozen_def option.map_comp comp_def)

lemma Sequential_two: "Sequential [a, b] = under ''0'' a @ under ''1'' b"
  by (simp add: Sequential_def enumerate_eq_zip upt_rec digits del: string_of_nat.simps)

lemma run_script_result:
  "run_script e =
     Inr \<lparr> model_vitb14 = [([], Backbone)], lora_model = lora_module,
           classifier = [([], Classifier)],
           lora_with_head = [([''0''], Adapters), ([''0'', ''lora_vit''], Backbone), ([''1''], Classifier)],
           pl_model = lightning_module,
           after_load = (\<lambda>ob. fmempty)(Backbone := fresh (backbone_init e)),
           before_fit = store_before_fit e,
           fitted = lightning_module,
           final = trainer_fit (train e) lightning_module (store_before_fit e),
           saved = state_dict lightning_module
                     (trainer_fit (train e) lightning_module (store_before_fit e)) \<rparr>"
  unfolding run_script_def Let_def load_own_state
  by (simp add: LoRA_ViT_timm_def SoftConLightningModule_def Sequential_two under_def
        lora_module_def lightning_module_def store_before_fit_def freeze_fresh trainable_fresh
        fun_upd_twist)


lemma store_ignores_ckpt: "store_before_fit (e\<lparr> ckpt_file := c \<rparr>) = store_before_fit e"
  by (simp add: store_before_fit_def)



text \<open>
  C5.  The model setup loads the backbone's own state dict back into the backbone: the
  load succeeds, after it the parameters of the backbone are their fresh initialization,
  and the checkpoint read from disk changes nothing of the run, so no parameter of the
  assembled, trained or saved model.
\<close>

theorem checkpoint_never_applied:
  "\<exists>r. run_script e = Inr r \<and>
        after_load r Backbone = fresh (backbone_init e) \<and>
        fmmap data (after_load r Backbone) = backbone_init e \<and>
        (\<forall>c. run_script (e\<lparr> ckpt_file := c \<rparr>) = run_script e)"
proof -
  have same: "\<forall>c. run_script (e\<lparr> ckpt_file := c \<rparr>) = run_script e"
    unfolding run_script_result by (simp add: store_ignores_ckpt)
  show ?thesis
    using same unfolding run_script_result [of e] by (simp add: data_fresh)
qed



end
